theory Spec2Isabelle
  imports Main
begin

section \<open>Protocol schemas (schemas.py)\<close>

text \<open>
  The two string enums of the wire protocol. \<open>CommandType_value\<close> and
  \<open>ResponseStatus_value\<close> are the \<^verbatim>\<open>.value\<close> of a member.
\<close>

datatype CommandType = DEPLOY_COMPOSE | STOP_COMPOSE | STATUS | HEALTH_CHECK

fun CommandType_value :: "CommandType \<Rightarrow> string" where
  "CommandType_value DEPLOY_COMPOSE = ''DEPLOY_COMPOSE''"
| "CommandType_value STOP_COMPOSE = ''STOP_COMPOSE''"
| "CommandType_value STATUS = ''STATUS''"
| "CommandType_value HEALTH_CHECK = ''HEALTH_CHECK''"

datatype ResponseStatus = COMPLETED | FAILED | IN_PROGRESS | QUEUED

fun ResponseStatus_value :: "ResponseStatus \<Rightarrow> string" where
  "ResponseStatus_value COMPLETED = ''COMPLETED''"
| "ResponseStatus_value FAILED = ''FAILED''"
| "ResponseStatus_value IN_PROGRESS = ''IN_PROGRESS''"
| "ResponseStatus_value QUEUED = ''QUEUED''"

text \<open>
  Python's \<^verbatim>\<open>str.lower()\<close> on the ASCII range: the letters A..Z (codes 65..90) move
  up by 32, every other character stays.
\<close>

definition lower_char :: "char \<Rightarrow> char" where
  "lower_char c =
     (let n = (of_char c :: nat) in if 65 \<le> n \<and> n \<le> 90 then char_of (n + 32) else c)"

definition lower :: "string \<Rightarrow> string" where
  "lower s = map lower_char s"

datatype Payload =
    DeployPayload string string
  | StopPayload string
  | StatusPayload string

record Command =
  c_id :: string
  c_type :: CommandType
  c_payload :: Payload

text \<open>
  \<^verbatim>\<open>Response.data\<close> is an opaque optional value that no handler reads; it is kept
  as an optional text.
\<close>

record Response =
  r_job_id :: string
  r_status :: ResponseStatus
  r_logs :: string
  r_error :: "string option"
  r_data :: "string option"

record DeployRequest =
  q_project_name :: string
  q_compose_file_base64 :: string
  q_agent_id :: "int option"

record StopRequest =
  sq_agent_id :: "int option"

record DeployResponse =
  dr_job_id :: string
  dr_deployment_id :: int
  dr_status :: string
  dr_message :: string

record StopResponse =
  sr_job_id :: string
  sr_status :: string
  sr_message :: string

record StatusResponse =
  tr_job_id :: string
  tr_status :: string
  tr_logs :: string

section \<open>Durable records (models.py)\<close>

text \<open>
  A \<open>datetime\<close> is a reading of the clock (\<^verbatim>\<open>datetime.utcnow()\<close>). Each operation
  below takes the reading \<open>now\<close> as an argument and uses it for every timestamp it writes.
  The field names carry a prefix per table (\<open>a_\<close>, \<open>d_\<close>, \<open>j_\<close>) because the three
  tables share column names.
\<close>

type_synonym datetime = nat

record Agent =
  a_id :: int
  a_hostname :: string
  a_ip_address :: "string option"
  a_status :: string
  a_last_seen :: datetime
  a_version :: "string option"
  a_architecture :: "string option"
  a_created_at :: datetime

record Deployment =
  d_id :: int
  d_project_name :: string
  d_agent_id :: int
  d_status :: string
  d_compose_file_hash :: "string option"
  d_created_at :: datetime
  d_updated_at :: datetime
  d_last_logs :: "string option"
  d_last_error :: "string option"

record Job =
  j_id :: string
  j_deployment_id :: "int option"
  j_agent_id :: int
  j_command_type :: string
  j_status :: string
  j_logs :: "string option"
  j_error :: "string option"
  j_created_at :: datetime
  j_updated_at :: datetime

text \<open>
  The database: one list of rows per table, in insertion (rowid) order.
  \<^verbatim>\<open>select(T).where(P)\<close> followed by \<^verbatim>\<open>.first()\<close> is \<^const>\<open>find\<close> on the table.
\<close>

record database =
  agent_tbl :: "Agent list"
  deployment_tbl :: "Deployment list"
  job_tbl :: "Job list"

definition empty_db :: database where
  "empty_db = \<lparr>agent_tbl = [], deployment_tbl = [], job_tbl = []\<rparr>"

text \<open>
  \<^verbatim>\<open>session.add(obj); session.commit()\<close> on a row loaded by \<^verbatim>\<open>.first()\<close>: the row that
  \<^const>\<open>find\<close> returned (the first one satisfying \<open>P\<close>) is replaced by \<open>f\<close> of it.
\<close>

fun update_row :: "('r \<Rightarrow> bool) \<Rightarrow> ('r \<Rightarrow> 'r) \<Rightarrow> 'r list \<Rightarrow> 'r list" where
  "update_row P f [] = []"
| "update_row P f (r # rs) = (if P r then f r # rs else r # update_row P f rs)"

text \<open>
  The integer primary key given to a new row: one more than the largest key of the
  table, 1 for an empty table.
\<close>

definition next_id :: "int list \<Rightarrow> int" where
  "next_id ids = fold max ids 0 + 1"

section \<open>Connection manager (manager.py)\<close>

text \<open>
  A WebSocket object is known by its identity. The calls the program makes on WebSocket
  objects are effects outside the manager's two dictionaries; \<open>ws_calls\<close> records them
  in program order, so that what was (and was not) done to a socket can be stated.
\<close>

type_synonym websocket = nat

datatype ws_call =
    WsAccept websocket
  | WsSendText websocket Command
  | WsClose websocket int string

record ConnectionManager =
  active_connections :: "int \<rightharpoonup> websocket"
  agent_hostnames :: "int \<rightharpoonup> string"
  ws_calls :: "ws_call list"

definition init_manager :: ConnectionManager where
  "init_manager = \<lparr>active_connections = Map.empty, agent_hostnames = Map.empty, ws_calls = []\<rparr>"

definition connect :: "int \<Rightarrow> string \<Rightarrow> websocket \<Rightarrow> ConnectionManager \<Rightarrow> ConnectionManager" where
  "connect agent_id hostname ws m =
     m\<lparr>ws_calls := ws_calls m @ [WsAccept ws],
       active_connections := (active_connections m)(agent_id \<mapsto> ws),
       agent_hostnames := (agent_hostnames m)(agent_id \<mapsto> hostname)\<rparr>"

definition disconnect :: "int \<Rightarrow> ConnectionManager \<Rightarrow> ConnectionManager" where
  "disconnect agent_id m =
     (if agent_id \<in> dom (active_connections m) then
        (let m1 = m\<lparr>active_connections := (active_connections m)(agent_id := None)\<rparr>
         in if agent_id \<in> dom (agent_hostnames m1)
            then m1\<lparr>agent_hostnames := (agent_hostnames m1)(agent_id := None)\<rparr>
            else m1)
      else m)"

text \<open>
  \<open>send_raises\<close> says whether \<^verbatim>\<open>websocket.send_text\<close> raises on this call; it is only
  consulted when the agent has an entry. The result is the returned flag and the manager
  afterwards.
\<close>

definition send_command :: "bool \<Rightarrow> int \<Rightarrow> Command \<Rightarrow> ConnectionManager \<Rightarrow> bool \<times> ConnectionManager" where
  "send_command send_raises agent_id command m =
     (case active_connections m agent_id of
        None \<Rightarrow> (False, m)
      | Some ws \<Rightarrow>
          (let m1 = m\<lparr>ws_calls := ws_calls m @ [WsSendText ws command]\<rparr>
           in if send_raises then (False, disconnect agent_id m1) else (True, m1)))"

definition is_connected :: "int \<Rightarrow> ConnectionManager \<Rightarrow> bool" where
  "is_connected agent_id m = (agent_id \<in> dom (active_connections m))"

section \<open>The application (main.py)\<close>

text \<open>
  The state the handlers share: the database behind \<^verbatim>\<open>engine\<close> and the global
  \<^verbatim>\<open>connection_manager\<close>.
\<close>

record world =
  db :: database
  mgr :: ConnectionManager

definition init_world :: world where
  "init_world = \<lparr>db = empty_db, mgr = init_manager\<rparr>"

text \<open>
  The ways a request is refused. The first five are the \<^verbatim>\<open>HTTPException\<close>s of main.py
  (status code and detail in \<open>status_code\<close> below). The last two are exceptions no handler
  catches, answered with status 500: \<open>IntegrityError\<close> is the commit of a job whose primary
  key is already in the table; \<open>OverflowError\<close> is raised when an integer outside the signed
  64-bit range is bound to a query parameter.
\<close>

datatype error =
    AgentNotFound
  | NoAgentsAvailable
  | AgentNotConnected int
  | ProjectNotFound
  | SendFailed
  | IntegrityError
  | OverflowError

fun status_code :: "error \<Rightarrow> nat" where
  "status_code AgentNotFound = 404"
| "status_code NoAgentsAvailable = 503"
| "status_code (AgentNotConnected a) = 503"
| "status_code ProjectNotFound = 404"
| "status_code SendFailed = 503"
| "status_code IntegrityError = 500"
| "status_code OverflowError = 500"

text \<open>The integers the database driver accepts as a parameter or column value.\<close>

definition in_int64 :: "int \<Rightarrow> bool" where
  "in_int64 i = (- (2 ^ 63) \<le> i \<and> i < 2 ^ 63)"

subsection \<open>The WebSocket endpoint\<close>

text \<open>\<^verbatim>\<open>x or "unknown"\<close> for an optional header: a missing and an empty header both give the default.\<close>

definition or_unknown :: "string option \<Rightarrow> string" where
  "or_unknown h = (case h of None \<Rightarrow> ''unknown'' | Some s \<Rightarrow> if s = [] then ''unknown'' else s)"

text \<open>
  The endpoint up to the start of its receive loop (lines 78 to 129). \<open>authorized\<close> is
  the result of \<^verbatim>\<open>verify_agent_token(authorization)\<close>. The result is the agent id the
  handler goes on with, or \<open>None\<close> when the connection was refused.
\<close>

definition websocket_endpoint_open ::
  "datetime \<Rightarrow> bool \<Rightarrow> string option \<Rightarrow> string option \<Rightarrow> string option \<Rightarrow> string option \<Rightarrow>
   websocket \<Rightarrow> world \<Rightarrow> int option \<times> world" where
  "websocket_endpoint_open now authorized x_agent_hostname x_agent_version x_agent_architecture
       client_host ws w =
     (if \<not> authorized then
        (None, w\<lparr>mgr := (mgr w)\<lparr>ws_calls := ws_calls (mgr w) @ [WsClose ws 1008 ''Unauthorized'']\<rparr>\<rparr>)
      else
        (let hostname = or_unknown x_agent_hostname;
             version = or_unknown x_agent_version;
             architecture = or_unknown x_agent_architecture;
             agents = agent_tbl (db w);
             (agent_id, agents') =
               (case find (\<lambda>a. a_hostname a = hostname) agents of
                  Some agent \<Rightarrow>
                    (a_id agent,
                     update_row (\<lambda>a. a_hostname a = hostname)
                       (\<lambda>a. a\<lparr>a_status := ''online'', a_last_seen := now,
                              a_version := Some version, a_architecture := Some architecture,
                              a_ip_address := client_host\<rparr>) agents)
                | None \<Rightarrow>
                    (let agent = \<lparr>a_id = next_id (map a_id agents), a_hostname = hostname,
                                  a_ip_address = client_host, a_status = ''online'',
                                  a_last_seen = now, a_version = Some version,
                                  a_architecture = Some architecture, a_created_at = now\<rparr>
                     in (a_id agent, agents @ [agent])))
         in (Some agent_id,
             w\<lparr>db := (db w)\<lparr>agent_tbl := agents'\<rparr>,
               mgr := connect agent_id hostname ws (mgr w)\<rparr>)))"

text \<open>
  The deployment status after a reply (lines 157 to 163): \<open>cur\<close> is the status the
  deployment row has, \<open>command_type\<close> the job's column.
\<close>

definition deployment_status_after :: "ResponseStatus \<Rightarrow> string \<Rightarrow> string \<Rightarrow> string" where
  "deployment_status_after status command_type cur =
     (if status = COMPLETED then
        (if command_type = CommandType_value DEPLOY_COMPOSE then ''running''
         else if command_type = CommandType_value STOP_COMPOSE then ''stopped''
         else cur)
      else if status = FAILED then ''failed''
      else cur)"

text \<open>
  One pass of the receive loop with a decoded response (lines 141 to 171).
  \<^verbatim>\<open>if job.deployment_id:\<close> is Python truth: neither \<^verbatim>\<open>None\<close> nor 0.
\<close>

definition handle_response :: "datetime \<Rightarrow> Response \<Rightarrow> database \<Rightarrow> database" where
  "handle_response now response d =
     (case find (\<lambda>j. j_id j = r_job_id response) (job_tbl d) of
        None \<Rightarrow> d
      | Some job0 \<Rightarrow>
          (let job = job0\<lparr>j_status := lower (ResponseStatus_value (r_status response)),
                          j_logs := Some (r_logs response),
                          j_error := r_error response,
                          j_updated_at := now\<rparr>;
               d1 = d\<lparr>job_tbl := update_row (\<lambda>j. j_id j = r_job_id response) (\<lambda>_. job) (job_tbl d)\<rparr>
           in case j_deployment_id job of
                None \<Rightarrow> d1
              | Some dep_id \<Rightarrow>
                  if dep_id = 0 then d1
                  else
                    (case find (\<lambda>x. d_id x = dep_id) (deployment_tbl d) of
                       None \<Rightarrow> d1
                     | Some deployment0 \<Rightarrow>
                         (let deployment = deployment0
                                \<lparr>d_status := deployment_status_after (r_status response)
                                               (j_command_type job) (d_status deployment0),
                                 d_last_logs := Some (r_logs response),
                                 d_last_error := r_error response,
                                 d_updated_at := now\<rparr>
                          in d1\<lparr>deployment_tbl :=
                                  update_row (\<lambda>x. d_id x = dep_id) (\<lambda>_. deployment)
                                    (deployment_tbl d)\<rparr>))))"

definition websocket_endpoint_reply :: "datetime \<Rightarrow> Response \<Rightarrow> world \<Rightarrow> world" where
  "websocket_endpoint_reply now response w = w\<lparr>db := handle_response now response (db w)\<rparr>"

text \<open>The \<^verbatim>\<open>finally\<close> block of the endpoint (lines 177 to 188), run when the loop is left.\<close>

definition websocket_endpoint_finally :: "datetime \<Rightarrow> int \<Rightarrow> world \<Rightarrow> world" where
  "websocket_endpoint_finally now agent_id w =
     w\<lparr>mgr := disconnect agent_id (mgr w),
       db := (db w)\<lparr>agent_tbl :=
               update_row (\<lambda>a. a_id a = agent_id)
                 (\<lambda>a. a\<lparr>a_status := ''offline'', a_last_seen := now\<rparr>) (agent_tbl (db w))\<rparr>\<rparr>"

subsection \<open>The REST handlers\<close>

text \<open>
  Each handler takes the clock reading, the identifier \<^verbatim>\<open>str(uuid.uuid4())\<close> drew, and
  whether the write to the socket raises. It returns the response or the refusal, and the
  state it leaves: rows committed before a refusal stay.
\<close>

definition new_job :: "datetime \<Rightarrow> string \<Rightarrow> int \<Rightarrow> int \<Rightarrow> CommandType \<Rightarrow> Job" where
  "new_job now job_id deployment_id agent_id ct =
     \<lparr>j_id = job_id, j_deployment_id = Some deployment_id, j_agent_id = agent_id,
      j_command_type = CommandType_value ct, j_status = ''queued'', j_logs = None,
      j_error = None, j_created_at = now, j_updated_at = now\<rparr>"

text \<open>
  The tail the three handlers share, from \<^verbatim>\<open>session.add(job)\<close> on: insert the job, send
  the command, and on a failed send mark the job failed. The result is whether the
  command went out.
\<close>

definition add_job_and_send :: "bool \<Rightarrow> Job \<Rightarrow> Command \<Rightarrow> world \<Rightarrow> (error + unit) \<times> world" where
  "add_job_and_send send_raises job command w =
     (if find (\<lambda>j. j_id j = j_id job) (job_tbl (db w)) \<noteq> None then (Inl IntegrityError, w)
      else
        (let w1 = w\<lparr>db := (db w)\<lparr>job_tbl := job_tbl (db w) @ [job]\<rparr>\<rparr>;
             (success, m) = send_command send_raises (j_agent_id job) command (mgr w1);
             w2 = w1\<lparr>mgr := m\<rparr>
         in if \<not> success then
              (Inl SendFailed,
               w2\<lparr>db := (db w2)\<lparr>job_tbl :=
                       update_row (\<lambda>j. j_id j = j_id job)
                         (\<lambda>j. j\<lparr>j_status := ''failed'',
                                j_error := Some ''Failed to send command to agent''\<rparr>)
                         (job_tbl (db w2))\<rparr>\<rparr>)
            else (Inr (), w2)))"

text \<open>
  Lines 233 to 243 of \<^verbatim>\<open>deploy_project\<close>. \<^verbatim>\<open>if request.agent_id:\<close> is Python truth, so
  an agent id of 0 takes the branch of a missing one. The request's agent id is an unbounded
  integer; the query by \<^verbatim>\<open>Agent.id\<close> binds it as a parameter, which raises for a value
  outside the signed 64-bit range.
\<close>

definition find_target_agent :: "int option \<Rightarrow> Agent list \<Rightarrow> error + Agent" where
  "find_target_agent req_agent_id agents =
     (case req_agent_id of
        Some a \<Rightarrow>
          if a \<noteq> 0 then
            (if \<not> in_int64 a then Inl OverflowError
             else
               (case find (\<lambda>x. a_id x = a) agents of
                  None \<Rightarrow> Inl AgentNotFound
                | Some agent \<Rightarrow> Inr agent))
          else
            (case find (\<lambda>x. a_status x = ''online'') agents of
               None \<Rightarrow> Inl NoAgentsAvailable
             | Some agent \<Rightarrow> Inr agent)
      | None \<Rightarrow>
          (case find (\<lambda>x. a_status x = ''online'') agents of
             None \<Rightarrow> Inl NoAgentsAvailable
           | Some agent \<Rightarrow> Inr agent))"

definition deploy_project ::
  "datetime \<Rightarrow> string \<Rightarrow> bool \<Rightarrow> DeployRequest \<Rightarrow> world \<Rightarrow> (error + DeployResponse) \<times> world" where
  "deploy_project now uuid send_raises request w =
     (case find_target_agent (q_agent_id request) (agent_tbl (db w)) of
        Inl e \<Rightarrow> (Inl e, w)
      | Inr agent \<Rightarrow>
          if \<not> is_connected (a_id agent) (mgr w) then (Inl (AgentNotConnected (a_id agent)), w)
          else
            (let deployment =
                   \<lparr>d_id = next_id (map d_id (deployment_tbl (db w))),
                    d_project_name = q_project_name request, d_agent_id = a_id agent,
                    d_status = ''pending'', d_compose_file_hash = None,
                    d_created_at = now, d_updated_at = now,
                    d_last_logs = None, d_last_error = None\<rparr>;
                 w1 = w\<lparr>db := (db w)\<lparr>deployment_tbl := deployment_tbl (db w) @ [deployment]\<rparr>\<rparr>;
                 job = new_job now uuid (d_id deployment) (a_id agent) DEPLOY_COMPOSE;
                 command = \<lparr>c_id = uuid, c_type = DEPLOY_COMPOSE,
                            c_payload = DeployPayload (q_project_name request)
                                          (q_compose_file_base64 request)\<rparr>
             in case add_job_and_send send_raises job command w1 of
                  (Inl e, w2) \<Rightarrow> (Inl e, w2)
                | (Inr u, w2) \<Rightarrow>
                    (Inr \<lparr>dr_job_id = uuid, dr_deployment_id = d_id deployment,
                          dr_status = ''queued'',
                          dr_message = ''Deployment queued on agent '' @ a_hostname agent\<rparr>,
                     w2)))"

text \<open>
  The query of \<^verbatim>\<open>stop_project\<close> and \<^verbatim>\<open>get_project_status\<close> (lines 309 to 312 and 367 to
  370): the rows of the project, ordered by \<^verbatim>\<open>created_at\<close> descending, and the first of
  them. Rows with equal \<^verbatim>\<open>created_at\<close> keep their table order.
\<close>

definition current_deployment :: "string \<Rightarrow> Deployment list \<Rightarrow> Deployment option" where
  "current_deployment project_name deployments =
     (case sort_key (\<lambda>x. - int (d_created_at x))
             (filter (\<lambda>x. d_project_name x = project_name) deployments) of
        [] \<Rightarrow> None
      | x # _ \<Rightarrow> Some x)"

definition stop_project ::
  "datetime \<Rightarrow> string \<Rightarrow> bool \<Rightarrow> string \<Rightarrow> StopRequest \<Rightarrow> world \<Rightarrow> (error + StopResponse) \<times> world" where
  "stop_project now uuid send_raises project_name request w =
     (case current_deployment project_name (deployment_tbl (db w)) of
        None \<Rightarrow> (Inl ProjectNotFound, w)
      | Some deployment \<Rightarrow>
          (let agent_id = (case sq_agent_id request of
                             None \<Rightarrow> d_agent_id deployment
                           | Some a \<Rightarrow> if a = 0 then d_agent_id deployment else a)
           in if \<not> is_connected agent_id (mgr w) then (Inl (AgentNotConnected agent_id), w)
              else
                (let job = new_job now uuid (d_id deployment) agent_id STOP_COMPOSE;
                     command = \<lparr>c_id = uuid, c_type = STOP_COMPOSE,
                                c_payload = StopPayload project_name\<rparr>
                 in case add_job_and_send send_raises job command w of
                      (Inl e, w2) \<Rightarrow> (Inl e, w2)
                    | (Inr u, w2) \<Rightarrow>
                        (Inr \<lparr>sr_job_id = uuid, sr_status = ''queued'',
                              sr_message = ''Stop command queued for project '' @ project_name\<rparr>,
                         w2))))"

definition get_project_status ::
  "datetime \<Rightarrow> string \<Rightarrow> bool \<Rightarrow> string \<Rightarrow> world \<Rightarrow> (error + StatusResponse) \<times> world" where
  "get_project_status now uuid send_raises project_name w =
     (case current_deployment project_name (deployment_tbl (db w)) of
        None \<Rightarrow> (Inl ProjectNotFound, w)
      | Some deployment \<Rightarrow>
          (let agent_id = d_agent_id deployment
           in if \<not> is_connected agent_id (mgr w) then (Inl (AgentNotConnected agent_id), w)
              else
                (let job = new_job now uuid (d_id deployment) agent_id STATUS;
                     command = \<lparr>c_id = uuid, c_type = STATUS,
                                c_payload = StatusPayload project_name\<rparr>
                 in case add_job_and_send send_raises job command w of
                      (Inl e, w2) \<Rightarrow> (Inl e, w2)
                    | (Inr u, w2) \<Rightarrow>
                        (Inr \<lparr>tr_job_id = uuid, tr_status = ''queued'',
                              tr_logs = ''Status check queued for project '' @ project_name\<rparr>,
                         w2))))"

section \<open>Runs of the system\<close>

text \<open>Primary-key lookups, for stating what a table holds.\<close>

definition job_by_id :: "string \<Rightarrow> database \<Rightarrow> Job option" where
  "job_by_id job_id d = find (\<lambda>j. j_id j = job_id) (job_tbl d)"

definition deployment_by_id :: "int \<Rightarrow> database \<Rightarrow> Deployment option" where
  "deployment_by_id dep_id d = find (\<lambda>x. d_id x = dep_id) (deployment_tbl d)"

definition agent_by_id :: "int \<Rightarrow> database \<Rightarrow> Agent option" where
  "agent_by_id agent_id d = find (\<lambda>a. a_id a = agent_id) (agent_tbl d)"

text \<open>
  What the server runs, one handler block at a time: a WebSocket handler up to its receive
  loop, one pass of a receive loop, a handler's \<^verbatim>\<open>finally\<close> block, and the three REST
  requests. The arguments are those of the functions above.
\<close>

datatype event =
    Open datetime bool "string option" "string option" "string option" "string option" websocket
  | Reply datetime Response
  | Finally datetime int
  | Deploy datetime string bool DeployRequest
  | Stop datetime string bool string StopRequest
  | GetStatus datetime string bool string

fun step :: "event \<Rightarrow> world \<Rightarrow> world" where
  "step (Open now authorized h v a ip ws) w = snd (websocket_endpoint_open now authorized h v a ip ws w)"
| "step (Reply now response) w = websocket_endpoint_reply now response w"
| "step (Finally now agent_id) w = websocket_endpoint_finally now agent_id w"
| "step (Deploy now uuid send_raises request) w = snd (deploy_project now uuid send_raises request w)"
| "step (Stop now uuid send_raises project_name request) w =
     snd (stop_project now uuid send_raises project_name request w)"
| "step (GetStatus now uuid send_raises project_name) w =
     snd (get_project_status now uuid send_raises project_name w)"

definition run :: "event list \<Rightarrow> world \<Rightarrow> world" where
  "run evs w = fold step evs w"

text \<open>The calls on the connection manager alone.\<close>

datatype mgr_op =
    Connect int string websocket
  | Disconnect int
  | SendCommand bool int Command

fun apply_op :: "mgr_op \<Rightarrow> ConnectionManager \<Rightarrow> ConnectionManager" where
  "apply_op (Connect agent_id hostname ws) m = connect agent_id hostname ws m"
| "apply_op (Disconnect agent_id) m = disconnect agent_id m"
| "apply_op (SendCommand send_raises agent_id command) m =
     snd (send_command send_raises agent_id command m)"

definition run_ops :: "mgr_op list \<Rightarrow> ConnectionManager \<Rightarrow> ConnectionManager" where
  "run_ops ops m = fold apply_op ops m"

subsection \<open>Primary keys of deployments\<close>

text \<open>Every deployment row has a positive primary key.\<close>

definition ids_positive :: "world \<Rightarrow> bool" where
  "ids_positive w = list_all (\<lambda>x. 0 < d_id x) (deployment_tbl (db w))"

subsection \<open>Sessions of an identity\<close>

text \<open>
  An agent's identity is the hostname it reports: the endpoint finds the agent row by
  hostname and registers the socket under that row's id. \<open>sessions_of\<close> lists the sockets
  the connection manager holds for the rows of a hostname.
\<close>

definition sessions_of :: "string \<Rightarrow> world \<Rightarrow> websocket list" where
  "sessions_of hostname w =
     List.map_filter (\<lambda>x. active_connections (mgr w) (a_id x))
       (filter (\<lambda>x. a_hostname x = hostname) (agent_tbl (db w)))"

definition hostnames_distinct :: "world \<Rightarrow> bool" where
  "hostnames_distinct w = distinct (map a_hostname (agent_tbl (db w)))"

subsection \<open>A scenario\<close>

text \<open>
  The agent \<^verbatim>\<open>web-1\<close> connects on socket 1 at time 1 and is registered as agent 1; at time 2
  a deploy request for project \<^verbatim>\<open>x\<close> names no agent, draws the job id \<^verbatim>\<open>J\<close> and is
  written to the socket. \<open>reply_J\<close> is a reply of the agent for that job.
\<close>

definition web1_connects :: event where
  "web1_connects =
     Open 1 True (Some ''web-1'') (Some ''1.0'') (Some ''amd64'') (Some ''10.0.0.5'') 1"

definition deploy_x :: event where
  "deploy_x = Deploy 2 ''J'' False
     \<lparr>q_project_name = ''x'', q_compose_file_base64 = ''Y29tcG9zZQ=='', q_agent_id = None\<rparr>"

definition reply_J :: "ResponseStatus \<Rightarrow> string \<Rightarrow> string option \<Rightarrow> Response" where
  "reply_J st logs err =
     \<lparr>r_job_id = ''J'', r_status = st, r_logs = logs, r_error = err, r_data = None\<rparr>"

text \<open>The same agent connects again, at time 5 on socket 2, while socket 1 is still registered.\<close>

definition web1_reconnects :: event where
  "web1_reconnects =
     Open 5 True (Some ''web-1'') (Some ''1.1'') (Some ''amd64'') (Some ''10.0.0.5'') 2"

text \<open>The agent row after the first connection, and the deployment row the deploy request adds.\<close>

definition agent_web1 :: Agent where
  "agent_web1 = \<lparr>a_id = 1, a_hostname = ''web-1'', a_ip_address = Some ''10.0.0.5'',
     a_status = ''online'', a_last_seen = 1, a_version = Some ''1.0'',
     a_architecture = Some ''amd64'', a_created_at = 1\<rparr>"

definition deployment_x :: Deployment where
  "deployment_x = \<lparr>d_id = 1, d_project_name = ''x'', d_agent_id = 1, d_status = ''pending'',
     d_compose_file_hash = None, d_created_at = 2, d_updated_at = 2,
     d_last_logs = None, d_last_error = None\<rparr>"

text \<open>A second deploy request for the same project, at time 7 with job id \<^verbatim>\<open>K\<close>, and its row.\<close>

definition deploy_x_again :: event where
  "deploy_x_again = Deploy 7 ''K'' False
     \<lparr>q_project_name = ''x'', q_compose_file_base64 = ''Y29tcG9zZQ=='', q_agent_id = None\<rparr>"

definition deployment_x2 :: Deployment where
  "deployment_x2 = \<lparr>d_id = 2, d_project_name = ''x'', d_agent_id = 1, d_status = ''pending'',
     d_compose_file_hash = None, d_created_at = 7, d_updated_at = 7,
     d_last_logs = None, d_last_error = None\<rparr>"

section \<open>Facts about tables\<close>

lemma lower_ResponseStatus_value:
  "lower (ResponseStatus_value COMPLETED) = ''completed''"
  "lower (ResponseStatus_value FAILED) = ''failed''"
  "lower (ResponseStatus_value IN_PROGRESS) = ''in_progress''"
  "lower (ResponseStatus_value QUEUED) = ''queued''"
  by code_simp+

lemma update_row_none: "find P rs = None \<Longrightarrow> update_row P f rs = rs"
  by (induction rs) (auto split: if_splits)

lemma find_update_row_keep:
  "find P rs = Some r \<Longrightarrow> P (f r) \<Longrightarrow> find P (update_row P f rs) = Some (f r)"
  by (induction rs) (auto split: if_splits)

lemma find_update_row_other:
  "(\<And>r. Q r \<Longrightarrow> \<not> P r) \<Longrightarrow> (\<And>r. P r \<Longrightarrow> \<not> Q (f r)) \<Longrightarrow>
   find Q (update_row P f rs) = find Q rs"
  by (induction rs) (auto split: if_splits)

lemma find_Some_holds: "find P rs = Some r \<Longrightarrow> P r"
  by (induction rs) (auto split: if_splits)

lemma find_append_fresh: "\<not> P x \<Longrightarrow> find P (rs @ [x]) = find P rs"
  by (induction rs) auto

lemma find_append_new: "find P rs = None \<Longrightarrow> P x \<Longrightarrow> find P (rs @ [x]) = Some x"
  by (induction rs) (auto split: if_splits)

lemma update_row_append_new:
  "find P rs = None \<Longrightarrow> P x \<Longrightarrow> update_row P f (rs @ [x]) = rs @ [f x]"
  by (induction rs) (auto split: if_splits)

section \<open>The manager's dictionaries\<close>

lemma dom_connect:
  "dom (active_connections m) = dom (agent_hostnames m) \<Longrightarrow>
   dom (active_connections (connect a h ws m)) = dom (agent_hostnames (connect a h ws m))"
  by (simp add: connect_def)

lemma dom_disconnect:
  "dom (active_connections m) = dom (agent_hostnames m) \<Longrightarrow>
   dom (active_connections (disconnect a m)) = dom (agent_hostnames (disconnect a m))"
  by (auto simp: disconnect_def Let_def split: if_splits)

lemma dom_send_command:
  "dom (active_connections m) = dom (agent_hostnames m) \<Longrightarrow>
   dom (active_connections (snd (send_command b a c m))) =
   dom (agent_hostnames (snd (send_command b a c m)))"
  by (auto simp: send_command_def Let_def disconnect_def split: option.splits if_splits)

lemma dom_apply_op:
  "dom (active_connections m) = dom (agent_hostnames m) \<Longrightarrow>
   dom (active_connections (apply_op x m)) = dom (agent_hostnames (apply_op x m))"
  by (cases x) (simp_all add: dom_connect dom_disconnect dom_send_command)

lemma dom_fold_apply_op:
  "dom (active_connections m) = dom (agent_hostnames m) \<Longrightarrow>
   dom (active_connections (fold apply_op ops m)) = dom (agent_hostnames (fold apply_op ops m))"
  by (induction ops arbitrary: m) (simp_all add: dom_apply_op)

text \<open>
  C9. From the empty manager, after any sequence of \<open>connect\<close>, \<open>disconnect\<close> and
  \<open>send_command\<close> calls (whether or not a write raises), the keys of \<open>agent_hostnames\<close>
  are exactly the keys of \<open>active_connections\<close>.
\<close>

theorem manager_key_sets_equal:
  "dom (agent_hostnames (run_ops ops init_manager)) =
   dom (active_connections (run_ops ops init_manager))"
proof -
  have "dom (active_connections init_manager) = dom (agent_hostnames init_manager)"
    by (simp add: init_manager_def)
  from dom_fold_apply_op [OF this, of ops] show ?thesis
    by (simp add: run_ops_def)
qed

section \<open>Evaluating concrete runs\<close>

lemma lower_literals:
  "lower ''COMPLETED'' = ''completed''"
  "lower ''FAILED'' = ''failed''"
  "lower ''IN_PROGRESS'' = ''in_progress''"
  "lower ''QUEUED'' = ''queued''"
  by code_simp+

lemmas run_simps = lower_literals run_def init_world_def empty_db_def init_manager_def
  websocket_endpoint_open_def websocket_endpoint_reply_def websocket_endpoint_finally_def
  deploy_project_def stop_project_def get_project_status_def add_job_and_send_def
  find_target_agent_def in_int64_def new_job_def send_command_def is_connected_def connect_def disconnect_def
  or_unknown_def next_id_def current_deployment_def handle_response_def deployment_status_after_def
  job_by_id_def deployment_by_id_def agent_by_id_def Let_def

lemmas scenario_simps = web1_connects_def deploy_x_def reply_J_def

lemma job_J_deployed:
  "job_by_id ''J'' (db (run [web1_connects, deploy_x] init_world)) =
     Some (new_job 2 ''J'' 1 1 DEPLOY_COMPOSE)"
  by (simp add: scenario_simps run_simps)

section \<open>Processing a reply\<close>

lemma update_row_const:
  "find P rs = Some x0 \<Longrightarrow> update_row P (\<lambda>_. f x0) rs = update_row P f rs"
  by (induction rs) (auto split: if_splits)

lemma job_tbl_handle_response:
  "job_tbl (handle_response now r d) =
     update_row (\<lambda>j. j_id j = r_job_id r)
       (\<lambda>j. j\<lparr>j_status := lower (ResponseStatus_value (r_status r)), j_logs := Some (r_logs r),
              j_error := r_error r, j_updated_at := now\<rparr>) (job_tbl d)"
proof (cases "find (\<lambda>j. j_id j = r_job_id r) (job_tbl d)")
  case None
  then show ?thesis by (simp add: handle_response_def update_row_none)
next
  case (Some job0)
  note eq = update_row_const [OF Some, of "\<lambda>j. j\<lparr>j_status := lower (ResponseStatus_value (r_status r)),
              j_logs := Some (r_logs r), j_error := r_error r, j_updated_at := now\<rparr>"]
  show ?thesis using Some
    by (simp add: handle_response_def Let_def eq split: option.splits)
qed

lemma agent_tbl_handle_response: "agent_tbl (handle_response now r d) = agent_tbl d"
  by (simp add: handle_response_def Let_def split: option.splits)

lemma job_by_id_handle_response_other:
  "r_job_id r \<noteq> jid \<Longrightarrow> job_by_id jid (handle_response now r d) = job_by_id jid d"
  unfolding job_by_id_def job_tbl_handle_response
  by (rule find_update_row_other) auto

lemma job_by_id_handle_response_same:
  "job_by_id (r_job_id r) d = Some job \<Longrightarrow>
   job_by_id (r_job_id r) (handle_response now r d) =
     Some (job\<lparr>j_status := lower (ResponseStatus_value (r_status r)), j_logs := Some (r_logs r),
              j_error := r_error r, j_updated_at := now\<rparr>)"
  unfolding job_by_id_def job_tbl_handle_response
  by (frule find_Some_holds) (simp add: find_update_row_keep)

lemma deployment_tbl_handle_response:
  "deployment_tbl (handle_response now r d) =
     (case job_by_id (r_job_id r) d of
        None \<Rightarrow> deployment_tbl d
      | Some job \<Rightarrow>
         (case j_deployment_id job of
            None \<Rightarrow> deployment_tbl d
          | Some dep_id \<Rightarrow>
              if dep_id = 0 then deployment_tbl d
              else update_row (\<lambda>x. d_id x = dep_id)
                     (\<lambda>x. x\<lparr>d_status := deployment_status_after (r_status r) (j_command_type job) (d_status x),
                            d_last_logs := Some (r_logs r), d_last_error := r_error r,
                            d_updated_at := now\<rparr>) (deployment_tbl d)))"
proof (cases "find (\<lambda>j. j_id j = r_job_id r) (job_tbl d)")
  case None
  then show ?thesis by (simp add: handle_response_def job_by_id_def)
next
  case (Some job)
  show ?thesis
  proof (cases "j_deployment_id job")
    case None
    with Some show ?thesis by (simp add: handle_response_def job_by_id_def Let_def)
  next
    case dep: (Some dep_id)
    show ?thesis
    proof (cases "find (\<lambda>x. d_id x = dep_id) (deployment_tbl d)")
      case None
      with Some dep show ?thesis
        by (simp add: handle_response_def job_by_id_def Let_def update_row_none)
    next
      case d0: (Some deployment0)
      note eq = update_row_const [OF d0, of "\<lambda>x. x\<lparr>d_status := deployment_status_after (r_status r) (j_command_type job) (d_status x),
                            d_last_logs := Some (r_logs r), d_last_error := r_error r,
                            d_updated_at := now\<rparr>"]
      from Some dep d0 show ?thesis
        by (simp add: handle_response_def job_by_id_def Let_def eq)
    qed
  qed
qed

lemma deployment_status_after_idem:
  "deployment_status_after s c (deployment_status_after s c x) = deployment_status_after s c x"
  by (simp add: deployment_status_after_def)

lemma update_row_same_twice:
  "(\<And>x. P x \<Longrightarrow> P (f x)) \<Longrightarrow> (\<And>x. g (f x) = g x) \<Longrightarrow>
   update_row P g (update_row P f rs) = update_row P g rs"
  by (induction rs) auto

lemma database_eqI:
  "agent_tbl a = agent_tbl b \<Longrightarrow> deployment_tbl a = deployment_tbl b \<Longrightarrow> job_tbl a = job_tbl b \<Longrightarrow>
   (a :: database) = b"
  by simp

lemma handle_response_idem:
  "handle_response t2 r (handle_response t1 r d) = handle_response t2 r d"
proof (rule database_eqI)
  show "agent_tbl (handle_response t2 r (handle_response t1 r d)) = agent_tbl (handle_response t2 r d)"
    by (simp add: agent_tbl_handle_response)
  show "job_tbl (handle_response t2 r (handle_response t1 r d)) = job_tbl (handle_response t2 r d)"
    unfolding job_tbl_handle_response by (rule update_row_same_twice) simp_all
  show "deployment_tbl (handle_response t2 r (handle_response t1 r d)) = deployment_tbl (handle_response t2 r d)"
  proof (cases "job_by_id (r_job_id r) d")
    case None
    then have "handle_response t1 r d = d" by (simp add: handle_response_def job_by_id_def)
    then show ?thesis by simp
  next
    case (Some job)
    note j1 = job_by_id_handle_response_same [OF Some, of t1]
    show ?thesis
      unfolding deployment_tbl_handle_response [of t2] j1 Some
      unfolding deployment_tbl_handle_response [of t1] Some
      by (auto split: option.splits intro!: update_row_same_twice simp: deployment_status_after_idem)
  qed
qed

text \<open>
  C1, as the claim states it, fails: in the scenario the first reply (completed) leaves job
  \<^verbatim>\<open>J\<close> completed and deployment 1 running; a second reply with the same job id (failed) is
  applied as well and leaves the job failed and the deployment failed.
\<close>

theorem second_reply_applied_counterexample:
  "map_option j_status (job_by_id ''J'' (db (run
      [web1_connects, deploy_x, Reply 3 (reply_J COMPLETED ''ok'' None)] init_world))) = Some ''completed''
   \<and> map_option d_status (deployment_by_id 1 (db (run
      [web1_connects, deploy_x, Reply 3 (reply_J COMPLETED ''ok'' None)] init_world))) = Some ''running''
   \<and> map_option j_status (job_by_id ''J'' (db (run
      [web1_connects, deploy_x, Reply 3 (reply_J COMPLETED ''ok'' None),
       Reply 4 (reply_J FAILED ''boom'' (Some ''late''))] init_world))) = Some ''failed''
   \<and> map_option d_status (deployment_by_id 1 (db (run
      [web1_connects, deploy_x, Reply 3 (reply_J COMPLETED ''ok'' None),
       Reply 4 (reply_J FAILED ''boom'' (Some ''late''))] init_world))) = Some ''failed''"
  by (simp add: scenario_simps run_simps)

text \<open>
  C1, amended. Replies are not deduplicated. A second reply that repeats the first gives the
  same database as that reply applied once at the later time; and after any two replies with
  the id of an existing job, the job's status, logs, error and update time are those of the
  second reply.
\<close>

theorem reply_applied_every_time:
  "handle_response t2 r (handle_response t1 r d) = handle_response t2 r d
   \<and> (job_by_id (r_job_id r1) d = Some job \<and> r_job_id r2 = r_job_id r1 \<longrightarrow>
        job_by_id (r_job_id r1) (handle_response t2 r2 (handle_response t1 r1 d)) =
          Some (job\<lparr>j_status := lower (ResponseStatus_value (r_status r2)),
                    j_logs := Some (r_logs r2), j_error := r_error r2, j_updated_at := t2\<rparr>))"
proof (intro conjI impI)
  show "handle_response t2 r (handle_response t1 r d) = handle_response t2 r d"
    by (rule handle_response_idem)
next
  assume a: "job_by_id (r_job_id r1) d = Some job \<and> r_job_id r2 = r_job_id r1"
  then have j: "job_by_id (r_job_id r1) d = Some job" and e: "r_job_id r2 = r_job_id r1" by simp_all
  from job_by_id_handle_response_same [OF j, of t1]
  have "job_by_id (r_job_id r2) (handle_response t1 r1 d) =
          Some (job\<lparr>j_status := lower (ResponseStatus_value (r_status r1)),
                    j_logs := Some (r_logs r1), j_error := r_error r1, j_updated_at := t1\<rparr>)"
    by (simp add: e)
  from job_by_id_handle_response_same [OF this, of t2]
  show "job_by_id (r_job_id r1) (handle_response t2 r2 (handle_response t1 r1 d)) =
          Some (job\<lparr>j_status := lower (ResponseStatus_value (r_status r2)),
                    j_logs := Some (r_logs r2), j_error := r_error r2, j_updated_at := t2\<rparr>)"
    by (simp add: e)
qed

theorem reply_applied_every_time_witness:
  "job_by_id ''J'' (handle_response 4 (reply_J FAILED ''boom'' (Some ''late''))
      (handle_response 3 (reply_J COMPLETED ''ok'' None)
         (db (run [web1_connects, deploy_x] init_world)))) =
     Some ((new_job 2 ''J'' 1 1 DEPLOY_COMPOSE)
             \<lparr>j_status := ''failed'', j_logs := Some ''boom'', j_error := Some ''late'',
              j_updated_at := 4\<rparr>)"
  using reply_applied_every_time [of 4 "reply_J COMPLETED ''ok'' None" 3
      "db (run [web1_connects, deploy_x] init_world)" "reply_J COMPLETED ''ok'' None"
      "new_job 2 ''J'' 1 1 DEPLOY_COMPOSE" "reply_J FAILED ''boom'' (Some ''late'')"]
    job_J_deployed
  by (simp add: reply_J_def lower_literals)

section \<open>What a step changes\<close>

lemma job_by_id_add_job_and_send:
  assumes "job_by_id jid (db w) = Some job"
  shows "job_by_id jid (db (snd (add_job_and_send sr j c w))) = Some job"
proof (cases "find (\<lambda>x. j_id x = j_id j) (job_tbl (db w))")
  case (Some a)
  then show ?thesis using assms by (simp add: add_job_and_send_def)
next
  case None
  with assms have ne: "j_id j \<noteq> jid" by (auto simp: job_by_id_def)
  have app: "find (\<lambda>x. j_id x = jid) (job_tbl (db w) @ [j]) = Some job"
    using assms ne by (simp add: job_by_id_def find_append_fresh)
  have upd: "find (\<lambda>x. j_id x = jid) (update_row (\<lambda>x. j_id x = j_id j) f (job_tbl (db w) @ [j])) = Some job"
    if "\<And>x. j_id (f x) = j_id x" for f
    using app ne that by (subst find_update_row_other) auto
  show ?thesis using None app upd
    by (simp add: add_job_and_send_def Let_def job_by_id_def split: prod.splits)
qed

lemma deployment_tbl_add_job_and_send:
  "deployment_tbl (db (snd (add_job_and_send sr j c w))) = deployment_tbl (db w)"
  by (simp add: add_job_and_send_def Let_def split: prod.splits)

lemma agent_tbl_add_job_and_send:
  "agent_tbl (db (snd (add_job_and_send sr j c w))) = agent_tbl (db w)"
  by (simp add: add_job_and_send_def Let_def split: prod.splits)

lemma snd_deploy_project:
  "snd (deploy_project now uuid sr req w) =
     (case find_target_agent (q_agent_id req) (agent_tbl (db w)) of
        Inl e \<Rightarrow> w
      | Inr agent \<Rightarrow>
          if \<not> is_connected (a_id agent) (mgr w) then w
          else snd (add_job_and_send sr
                 (new_job now uuid (next_id (map d_id (deployment_tbl (db w)))) (a_id agent) DEPLOY_COMPOSE)
                 \<lparr>c_id = uuid, c_type = DEPLOY_COMPOSE,
                  c_payload = DeployPayload (q_project_name req) (q_compose_file_base64 req)\<rparr>
                 (w\<lparr>db := (db w)\<lparr>deployment_tbl := deployment_tbl (db w) @
                     [\<lparr>d_id = next_id (map d_id (deployment_tbl (db w))),
                       d_project_name = q_project_name req, d_agent_id = a_id agent,
                       d_status = ''pending'', d_compose_file_hash = None,
                       d_created_at = now, d_updated_at = now,
                       d_last_logs = None, d_last_error = None\<rparr>]\<rparr>\<rparr>)))"
  by (simp add: deploy_project_def Let_def split: sum.splits prod.splits)

lemma snd_stop_project:
  "snd (stop_project now uuid sr p req w) =
     (case current_deployment p (deployment_tbl (db w)) of
        None \<Rightarrow> w
      | Some deployment \<Rightarrow>
          (let agent_id = (case sq_agent_id req of None \<Rightarrow> d_agent_id deployment
                           | Some a \<Rightarrow> if a = 0 then d_agent_id deployment else a)
           in if \<not> is_connected agent_id (mgr w) then w
              else snd (add_job_and_send sr (new_job now uuid (d_id deployment) agent_id STOP_COMPOSE)
                     \<lparr>c_id = uuid, c_type = STOP_COMPOSE, c_payload = StopPayload p\<rparr> w)))"
  by (simp add: stop_project_def Let_def split: option.splits sum.splits prod.splits)

lemma snd_get_project_status:
  "snd (get_project_status now uuid sr p w) =
     (case current_deployment p (deployment_tbl (db w)) of
        None \<Rightarrow> w
      | Some deployment \<Rightarrow>
          if \<not> is_connected (d_agent_id deployment) (mgr w) then w
          else snd (add_job_and_send sr (new_job now uuid (d_id deployment) (d_agent_id deployment) STATUS)
                 \<lparr>c_id = uuid, c_type = STATUS, c_payload = StatusPayload p\<rparr> w))"
  by (simp add: get_project_status_def Let_def split: option.splits sum.splits prod.splits)

lemma job_tbl_open:
  "job_tbl (db (snd (websocket_endpoint_open now au h v a ip ws w))) = job_tbl (db w)"
  by (simp add: websocket_endpoint_open_def Let_def split: option.splits prod.splits)

lemma deployment_tbl_open:
  "deployment_tbl (db (snd (websocket_endpoint_open now au h v a ip ws w))) = deployment_tbl (db w)"
  by (simp add: websocket_endpoint_open_def Let_def split: option.splits prod.splits)

lemma job_by_id_step_frame:
  assumes "job_by_id jid (db w) = Some job"
      and "\<And>now r. ev = Reply now r \<Longrightarrow> r_job_id r \<noteq> jid"
  shows "job_by_id jid (db (step ev w)) = Some job"
proof (cases ev)
  case (Open now au h v a ip ws)
  then show ?thesis using assms(1) by (simp add: job_by_id_def job_tbl_open)
next
  case (Reply now r)
  with assms(2) have "r_job_id r \<noteq> jid" by simp
  then show ?thesis using Reply assms(1)
    by (simp add: websocket_endpoint_reply_def job_by_id_handle_response_other)
next
  case (Finally now a)
  then show ?thesis using assms(1) by (simp add: job_by_id_def websocket_endpoint_finally_def)
next
  case (Deploy now uuid sr req)
  have "job_by_id jid (db (w\<lparr>db := (db w)\<lparr>deployment_tbl := ds\<rparr>\<rparr>)) = Some job" for ds
    using assms(1) by (simp add: job_by_id_def)
  then show ?thesis using Deploy assms(1)
    by (simp add: snd_deploy_project job_by_id_add_job_and_send split: sum.splits)
next
  case (Stop now uuid sr p req)
  then show ?thesis using assms(1)
    by (simp add: snd_stop_project Let_def job_by_id_add_job_and_send split: option.splits)
next
  case (GetStatus now uuid sr p)
  then show ?thesis using assms(1)
    by (simp add: snd_get_project_status job_by_id_add_job_and_send split: option.splits)
qed

text \<open>
  C3, as the claim states it, fails: in the scenario job \<^verbatim>\<open>J\<close> is completed after the first
  reply, and a later reply for the same job with status \<^verbatim>\<open>IN_PROGRESS\<close> moves it out of that
  terminal status.
\<close>

theorem terminal_status_overwritten_counterexample:
  "map_option j_status (job_by_id ''J'' (db (run
      [web1_connects, deploy_x, Reply 3 (reply_J COMPLETED ''ok'' None)] init_world))) = Some ''completed''
   \<and> map_option j_status (job_by_id ''J'' (db (step (Reply 4 (reply_J IN_PROGRESS ''again'' None)) (run
      [web1_connects, deploy_x, Reply 3 (reply_J COMPLETED ''ok'' None)] init_world)))) = Some ''in_progress''"
  by (simp add: scenario_simps run_simps)

text \<open>
  C3, amended. A job's status is not protected once it is terminal. For an existing job,
  every step other than a reply carrying its id (a connection, a teardown, a deploy, stop
  or status request, a reply for another job) leaves the record as it is; a reply carrying
  its id overwrites status, logs, error and update time with the reply's values, whatever
  the status was.
\<close>

theorem job_changed_only_by_own_reply:
  "job_by_id jid (db w) = Some job \<longrightarrow>
     ((\<forall>now r. ev = Reply now r \<longrightarrow> r_job_id r \<noteq> jid) \<longrightarrow>
         job_by_id jid (db (step ev w)) = Some job)
     \<and> (\<forall>now r. r_job_id r = jid \<longrightarrow>
           job_by_id jid (db (step (Reply now r) w)) =
             Some (job\<lparr>j_status := lower (ResponseStatus_value (r_status r)),
                       j_logs := Some (r_logs r), j_error := r_error r, j_updated_at := now\<rparr>))"
proof (intro impI conjI allI)
  assume j: "job_by_id jid (db w) = Some job"
  { assume "\<forall>now r. ev = Reply now r \<longrightarrow> r_job_id r \<noteq> jid"
    then show "job_by_id jid (db (step ev w)) = Some job"
      using j by (intro job_by_id_step_frame) auto }
  { fix now and r :: Response assume "r_job_id r = jid"
    with j have "job_by_id (r_job_id r) (db w) = Some job" by simp
    from job_by_id_handle_response_same [OF this, of now] \<open>r_job_id r = jid\<close>
    show "job_by_id jid (db (step (Reply now r) w)) =
             Some (job\<lparr>j_status := lower (ResponseStatus_value (r_status r)),
                       j_logs := Some (r_logs r), j_error := r_error r, j_updated_at := now\<rparr>)"
      by (simp add: websocket_endpoint_reply_def) }
qed

theorem job_changed_only_by_own_reply_witness:
  "job_by_id ''J'' (db (step (Finally 3 1) (run [web1_connects, deploy_x] init_world))) =
     Some (new_job 2 ''J'' 1 1 DEPLOY_COMPOSE)
   \<and> job_by_id ''J'' (db (step (Reply 3 (reply_J FAILED ''boom'' None))
        (run [web1_connects, deploy_x] init_world))) =
     Some ((new_job 2 ''J'' 1 1 DEPLOY_COMPOSE)
             \<lparr>j_status := ''failed'', j_logs := Some ''boom'', j_error := None, j_updated_at := 3\<rparr>)"
  using job_changed_only_by_own_reply [of "''J''" "run [web1_connects, deploy_x] init_world"
      "new_job 2 ''J'' 1 1 DEPLOY_COMPOSE" "Finally 3 1"]
    job_J_deployed
  by (simp add: reply_J_def lower_literals)

section \<open>Deployment status\<close>

lemma fold_max_ge: "(a::int) \<le> fold max xs a"
proof (induction xs arbitrary: a)
  case Nil show ?case by simp
next
  case (Cons x xs)
  have "a \<le> max x a" by simp
  also have "\<dots> \<le> fold max xs (max x a)" by (rule Cons.IH)
  finally show ?case by simp
qed

lemma next_id_pos: "0 < next_id ids"
  using fold_max_ge [of 0 ids] by (simp add: next_id_def)

lemma ids_update_row:
  "list_all (\<lambda>x. 0 < d_id x) rs \<Longrightarrow> (\<And>x. d_id (f x) = d_id x) \<Longrightarrow>
   list_all (\<lambda>x. 0 < d_id x) (update_row P f rs)"
  by (induction rs) auto

lemma ids_positive_step: "ids_positive w \<Longrightarrow> ids_positive (step ev w)"
proof (cases ev)
  case (Open now au h v a ip ws)
  assume "ids_positive w"
  then show ?thesis using Open by (simp add: ids_positive_def deployment_tbl_open)
next
  case (Reply now r)
  assume "ids_positive w"
  then show ?thesis using Reply
    by (auto simp: ids_positive_def websocket_endpoint_reply_def deployment_tbl_handle_response
        split: option.splits intro!: ids_update_row)
next
  case (Finally now a)
  assume "ids_positive w"
  then show ?thesis using Finally by (simp add: ids_positive_def websocket_endpoint_finally_def)
next
  case (Deploy now uuid sr req)
  assume "ids_positive w"
  then show ?thesis using Deploy
    by (simp add: ids_positive_def snd_deploy_project deployment_tbl_add_job_and_send next_id_pos
        split: sum.splits)
next
  case (Stop now uuid sr p req)
  assume "ids_positive w"
  then show ?thesis using Stop
    by (simp add: ids_positive_def snd_stop_project Let_def deployment_tbl_add_job_and_send
        split: option.splits)
next
  case (GetStatus now uuid sr p)
  assume "ids_positive w"
  then show ?thesis using GetStatus
    by (simp add: ids_positive_def snd_get_project_status deployment_tbl_add_job_and_send
        split: option.splits)
qed

lemma ids_positive_fold: "ids_positive w \<Longrightarrow> ids_positive (fold step evs w)"
  by (induction evs arbitrary: w) (simp_all add: ids_positive_step)

lemma ids_positive_run: "ids_positive (run evs init_world)"
  unfolding run_def
  by (rule ids_positive_fold) (simp add: ids_positive_def init_world_def empty_db_def)

lemma deployment_by_id_positive:
  assumes "deployment_by_id dep_id (db (run evs init_world)) = Some dep"
  shows "dep_id \<noteq> 0"
proof -
  from assms have "d_id dep = dep_id" and "dep \<in> set (deployment_tbl (db (run evs init_world)))"
    by (auto simp: deployment_by_id_def find_Some_iff)
  with ids_positive_run [of evs] show ?thesis
    by (auto simp: ids_positive_def list_all_iff)
qed

lemma deployment_1_deployed:
  "deployment_by_id 1 (db (run [web1_connects, deploy_x] init_world)) =
     Some \<lparr>d_id = 1, d_project_name = ''x'', d_agent_id = 1, d_status = ''pending'',
           d_compose_file_hash = None, d_created_at = 2, d_updated_at = 2,
           d_last_logs = None, d_last_error = None\<rparr>"
  by (simp add: scenario_simps run_simps)

text \<open>
  C5. In a state reached by the system, when a reply arrives for a job that is linked to an
  existing deployment, the deployment's status afterwards is: running for a completed reply
  to a deploy command, stopped for a completed reply to a stop command, failed for any
  failed reply, and the old status otherwise (a completed reply to another command type, or
  a reply that is neither completed nor failed). Logs, error and update time are the reply's.
\<close>

theorem deployment_transition_on_reply:
  assumes "d = db (run evs init_world)"
      and "job_by_id (r_job_id r) d = Some job"
      and "j_deployment_id job = Some dep_id"
      and "deployment_by_id dep_id d = Some dep"
  shows "deployment_by_id dep_id (handle_response now r d) =
           Some (dep\<lparr>d_status :=
                       (if r_status r = COMPLETED \<and> j_command_type job = ''DEPLOY_COMPOSE''
                          then ''running''
                        else if r_status r = COMPLETED \<and> j_command_type job = ''STOP_COMPOSE''
                          then ''stopped''
                        else if r_status r = FAILED then ''failed''
                        else d_status dep),
                     d_last_logs := Some (r_logs r), d_last_error := r_error r,
                     d_updated_at := now\<rparr>)"
proof -
  from assms(1,4) have nz: "dep_id \<noteq> 0" by (auto dest: deployment_by_id_positive)
  from assms(4) have f: "find (\<lambda>x. d_id x = dep_id) (deployment_tbl d) = Some dep"
    by (simp add: deployment_by_id_def)
  have "deployment_tbl (handle_response now r d) =
      update_row (\<lambda>x. d_id x = dep_id)
        (\<lambda>x. x\<lparr>d_status := deployment_status_after (r_status r) (j_command_type job) (d_status x),
               d_last_logs := Some (r_logs r), d_last_error := r_error r,
               d_updated_at := now\<rparr>) (deployment_tbl d)"
    using assms(2,3) nz by (simp add: deployment_tbl_handle_response)
  moreover from find_Some_holds [OF f] have "d_id dep = dep_id" .
  ultimately have "deployment_by_id dep_id (handle_response now r d) =
      Some (dep\<lparr>d_status := deployment_status_after (r_status r) (j_command_type job) (d_status dep),
               d_last_logs := Some (r_logs r), d_last_error := r_error r,
               d_updated_at := now\<rparr>)"
    using f by (simp add: deployment_by_id_def find_update_row_keep)
  then show ?thesis
    by (simp add: deployment_status_after_def)
qed

theorem deployment_transition_on_reply_witness:
  "deployment_by_id 1 (handle_response 3 (reply_J COMPLETED ''ok'' None)
       (db (run [web1_connects, deploy_x] init_world))) =
     Some \<lparr>d_id = 1, d_project_name = ''x'', d_agent_id = 1, d_status = ''running'',
           d_compose_file_hash = None, d_created_at = 2, d_updated_at = 3,
           d_last_logs = Some ''ok'', d_last_error = None\<rparr>"
  using deployment_transition_on_reply [OF refl, of "reply_J COMPLETED ''ok'' None"
      "[web1_connects, deploy_x]" "new_job 2 ''J'' 1 1 DEPLOY_COMPOSE" 1 _ 3]
    job_J_deployed deployment_1_deployed
  by (simp add: reply_J_def new_job_def)

section \<open>Requests that are refused\<close>

lemma find_None_filter: "filter P rs = [] \<Longrightarrow> find P rs = None"
  by (induction rs) (auto split: if_splits)

lemma after_teardown:
  "find_target_agent (Some 1)
     (agent_tbl (db (run [web1_connects, deploy_x, Finally 3 1] init_world))) =
     Inr (agent_web1\<lparr>a_status := ''offline'', a_last_seen := 3\<rparr>)"
  "\<not> is_connected 1 (mgr (run [web1_connects, deploy_x, Finally 3 1] init_world))"
  "current_deployment ''x''
     (deployment_tbl (db (run [web1_connects, deploy_x, Finally 3 1] init_world))) =
     Some deployment_x"
  by (simp_all add: agent_web1_def deployment_x_def scenario_simps run_simps)

text \<open>
  What the three handlers do with a request they refuse before the job is created. A deploy
  request naming an agent id outside the signed 64-bit range fails with \<open>OverflowError\<close>;
  one naming an id in range that no agent row has is refused with \<open>AgentNotFound\<close>; one
  naming no agent when no row is online, with \<open>NoAgentsAvailable\<close>; one whose agent is not
  in the connection manager, with \<open>AgentNotConnected\<close>. A stop or status request for a
  project without deployment is refused with \<open>ProjectNotFound\<close>, and one whose agent is not
  connected with \<open>AgentNotConnected\<close>. In each case the state is the one before the
  request: no job row, no deployment row, no manager entry is created.
\<close>

theorem rejected_dispatch_changes_nothing:
  "(q_agent_id req = Some a \<and> a \<noteq> 0 \<and> \<not> in_int64 a \<longrightarrow>
      deploy_project now uuid sr req w = (Inl OverflowError, w))
   \<and> (q_agent_id req = Some a \<and> a \<noteq> 0 \<and> in_int64 a \<and> agent_by_id a (db w) = None \<longrightarrow>
      deploy_project now uuid sr req w = (Inl AgentNotFound, w))
   \<and> ((q_agent_id req = None \<or> q_agent_id req = Some 0)
        \<and> filter (\<lambda>x. a_status x = ''online'') (agent_tbl (db w)) = [] \<longrightarrow>
      deploy_project now uuid sr req w = (Inl NoAgentsAvailable, w))
   \<and> (find_target_agent (q_agent_id req) (agent_tbl (db w)) = Inr agent
        \<and> \<not> is_connected (a_id agent) (mgr w) \<longrightarrow>
      deploy_project now uuid sr req w = (Inl (AgentNotConnected (a_id agent)), w))
   \<and> (current_deployment p (deployment_tbl (db w)) = None \<longrightarrow>
      stop_project now uuid sr p sreq w = (Inl ProjectNotFound, w)
      \<and> get_project_status now uuid sr p w = (Inl ProjectNotFound, w))
   \<and> (current_deployment p (deployment_tbl (db w)) = Some dep
        \<and> target = (case sq_agent_id sreq of None \<Rightarrow> d_agent_id dep
                     | Some b \<Rightarrow> if b = 0 then d_agent_id dep else b)
        \<and> \<not> is_connected target (mgr w) \<longrightarrow>
      stop_project now uuid sr p sreq w = (Inl (AgentNotConnected target), w))
   \<and> (current_deployment p (deployment_tbl (db w)) = Some dep
        \<and> \<not> is_connected (d_agent_id dep) (mgr w) \<longrightarrow>
      get_project_status now uuid sr p w = (Inl (AgentNotConnected (d_agent_id dep)), w))"
proof (intro conjI impI)
  assume "q_agent_id req = Some a \<and> a \<noteq> 0 \<and> \<not> in_int64 a"
  then show "deploy_project now uuid sr req w = (Inl OverflowError, w)"
    by (simp add: deploy_project_def find_target_agent_def)
next
  assume "q_agent_id req = Some a \<and> a \<noteq> 0 \<and> in_int64 a \<and> agent_by_id a (db w) = None"
  then show "deploy_project now uuid sr req w = (Inl AgentNotFound, w)"
    by (simp add: deploy_project_def find_target_agent_def agent_by_id_def)
next
  assume "(q_agent_id req = None \<or> q_agent_id req = Some 0)
        \<and> filter (\<lambda>x. a_status x = ''online'') (agent_tbl (db w)) = []"
  then show "deploy_project now uuid sr req w = (Inl NoAgentsAvailable, w)"
    by (auto simp: deploy_project_def find_target_agent_def find_None_filter)
next
  assume "find_target_agent (q_agent_id req) (agent_tbl (db w)) = Inr agent
        \<and> \<not> is_connected (a_id agent) (mgr w)"
  then show "deploy_project now uuid sr req w = (Inl (AgentNotConnected (a_id agent)), w)"
    by (simp add: deploy_project_def)
next
  assume "current_deployment p (deployment_tbl (db w)) = None"
  then show "stop_project now uuid sr p sreq w = (Inl ProjectNotFound, w)"
    and "get_project_status now uuid sr p w = (Inl ProjectNotFound, w)"
    by (simp_all add: stop_project_def get_project_status_def)
next
  assume "current_deployment p (deployment_tbl (db w)) = Some dep
        \<and> target = (case sq_agent_id sreq of None \<Rightarrow> d_agent_id dep
                     | Some b \<Rightarrow> if b = 0 then d_agent_id dep else b)
        \<and> \<not> is_connected target (mgr w)"
  then show "stop_project now uuid sr p sreq w = (Inl (AgentNotConnected target), w)"
    by (clarsimp simp: stop_project_def Let_def)
next
  assume "current_deployment p (deployment_tbl (db w)) = Some dep
        \<and> \<not> is_connected (d_agent_id dep) (mgr w)"
  then show "get_project_status now uuid sr p w = (Inl (AgentNotConnected (d_agent_id dep)), w)"
    by (simp add: get_project_status_def Let_def)
qed

theorem rejected_dispatch_changes_nothing_witness:
  "deploy_project 2 ''J'' False
      \<lparr>q_project_name = ''x'', q_compose_file_base64 = ''Y29tcG9zZQ=='', q_agent_id = Some 7\<rparr>
      init_world = (Inl AgentNotFound, init_world)
   \<and> deploy_project 2 ''J'' False
      \<lparr>q_project_name = ''x'', q_compose_file_base64 = ''Y29tcG9zZQ=='', q_agent_id = None\<rparr>
      init_world = (Inl NoAgentsAvailable, init_world)
   \<and> stop_project 2 ''J'' False ''x'' \<lparr>sq_agent_id = None\<rparr> init_world =
        (Inl ProjectNotFound, init_world)
   \<and> deploy_project 4 ''K'' False
      \<lparr>q_project_name = ''x'', q_compose_file_base64 = ''Y29tcG9zZQ=='', q_agent_id = Some 1\<rparr>
      (run [web1_connects, deploy_x, Finally 3 1] init_world) =
        (Inl (AgentNotConnected 1), run [web1_connects, deploy_x, Finally 3 1] init_world)
   \<and> stop_project 4 ''K'' False ''x'' \<lparr>sq_agent_id = None\<rparr>
      (run [web1_connects, deploy_x, Finally 3 1] init_world) =
        (Inl (AgentNotConnected 1), run [web1_connects, deploy_x, Finally 3 1] init_world)
   \<and> get_project_status 4 ''K'' False ''x''
      (run [web1_connects, deploy_x, Finally 3 1] init_world) =
        (Inl (AgentNotConnected 1), run [web1_connects, deploy_x, Finally 3 1] init_world)"
  using rejected_dispatch_changes_nothing [of
      "\<lparr>q_project_name = ''x'', q_compose_file_base64 = ''Y29tcG9zZQ=='', q_agent_id = Some 7\<rparr>"
      7 2 "''J''" False init_world _ "''x''" "\<lparr>sq_agent_id = None\<rparr>"]
    rejected_dispatch_changes_nothing [of
      "\<lparr>q_project_name = ''x'', q_compose_file_base64 = ''Y29tcG9zZQ=='', q_agent_id = None\<rparr>"
      _ 2 "''J''" False init_world]
    rejected_dispatch_changes_nothing [of
      "\<lparr>q_project_name = ''x'', q_compose_file_base64 = ''Y29tcG9zZQ=='', q_agent_id = Some 1\<rparr>"
      _ 4 "''K''" False "run [web1_connects, deploy_x, Finally 3 1] init_world"
      "agent_web1\<lparr>a_status := ''offline'', a_last_seen := 3\<rparr>" "''x''"
      "\<lparr>sq_agent_id = None\<rparr>" deployment_x 1]
    after_teardown
  by (simp add: agent_by_id_def init_world_def empty_db_def current_deployment_def in_int64_def
      agent_web1_def deployment_x_def)

text \<open>
  C6 fails on the code at one kind of request. A deploy request may carry any integer as
  agent id. With the id \<open>2 ^ 63\<close>, which no agent row has, the request is not refused with
  \<open>AgentNotFound\<close>: the query by agent id raises \<open>OverflowError\<close>, which no handler
  catches. No row is created.
\<close>

theorem deploy_agent_id_out_of_range:
  "deploy_project 2 ''J'' False
      \<lparr>q_project_name = ''x'', q_compose_file_base64 = ''Y29tcG9zZQ=='',
       q_agent_id = Some 9223372036854775808\<rparr>
      init_world = (Inl OverflowError, init_world)
   \<and> agent_by_id 9223372036854775808 (db init_world) = None
   \<and> status_code OverflowError = 500"
  by (simp add: deploy_project_def find_target_agent_def in_int64_def agent_by_id_def
      init_world_def empty_db_def)

section \<open>A write that fails\<close>

lemma add_job_and_send_raises:
  assumes "job_by_id (j_id j) (db w) = None" and "is_connected (j_agent_id j) (mgr w)"
  shows "fst (add_job_and_send True j c w) = Inl SendFailed"
    and "\<not> is_connected (j_agent_id j) (mgr (snd (add_job_and_send True j c w)))"
    and "job_tbl (db (snd (add_job_and_send True j c w))) =
           job_tbl (db w) @ [j\<lparr>j_status := ''failed'',
                               j_error := Some ''Failed to send command to agent''\<rparr>]"
    and "job_by_id (j_id j) (db (snd (add_job_and_send True j c w))) =
           Some (j\<lparr>j_status := ''failed'', j_error := Some ''Failed to send command to agent''\<rparr>)"
proof -
  from assms(1) have n: "find (\<lambda>x. j_id x = j_id j) (job_tbl (db w)) = None"
    by (simp add: job_by_id_def)
  from assms(2) obtain ws where ws: "active_connections (mgr w) (j_agent_id j) = Some ws"
    by (auto simp: is_connected_def)
  show "fst (add_job_and_send True j c w) = Inl SendFailed"
    using n ws by (simp add: add_job_and_send_def send_command_def Let_def)
  show "\<not> is_connected (j_agent_id j) (mgr (snd (add_job_and_send True j c w)))"
    using n ws
    by (simp add: add_job_and_send_def send_command_def Let_def is_connected_def disconnect_def)
  show t: "job_tbl (db (snd (add_job_and_send True j c w))) =
           job_tbl (db w) @ [j\<lparr>j_status := ''failed'',
                               j_error := Some ''Failed to send command to agent''\<rparr>]"
    using n ws
    by (simp add: add_job_and_send_def send_command_def Let_def update_row_append_new)
  show "job_by_id (j_id j) (db (snd (add_job_and_send True j c w))) =
           Some (j\<lparr>j_status := ''failed'', j_error := Some ''Failed to send command to agent''\<rparr>)"
    unfolding job_by_id_def t using n by (simp add: find_append_new)
qed

lemma deploy_project_raises:
  assumes "find_target_agent (q_agent_id req) (agent_tbl (db w)) = Inr agent"
      and "is_connected (a_id agent) (mgr w)" and "job_by_id uuid (db w) = None"
  shows "deploy_project now uuid True req w =
     (Inl SendFailed,
      snd (add_job_and_send True
        (new_job now uuid (next_id (map d_id (deployment_tbl (db w)))) (a_id agent) DEPLOY_COMPOSE)
        \<lparr>c_id = uuid, c_type = DEPLOY_COMPOSE,
         c_payload = DeployPayload (q_project_name req) (q_compose_file_base64 req)\<rparr>
        (w\<lparr>db := (db w)\<lparr>deployment_tbl := deployment_tbl (db w) @
             [\<lparr>d_id = next_id (map d_id (deployment_tbl (db w))),
               d_project_name = q_project_name req, d_agent_id = a_id agent,
               d_status = ''pending'', d_compose_file_hash = None,
               d_created_at = now, d_updated_at = now,
               d_last_logs = None, d_last_error = None\<rparr>]\<rparr>\<rparr>)))"
proof -
  let ?w1 = "w\<lparr>db := (db w)\<lparr>deployment_tbl := deployment_tbl (db w) @
                     [\<lparr>d_id = next_id (map d_id (deployment_tbl (db w))),
                       d_project_name = q_project_name req, d_agent_id = a_id agent,
                       d_status = ''pending'', d_compose_file_hash = None,
                       d_created_at = now, d_updated_at = now,
                       d_last_logs = None, d_last_error = None\<rparr>]\<rparr>\<rparr>"
  let ?j = "new_job now uuid (next_id (map d_id (deployment_tbl (db w)))) (a_id agent) DEPLOY_COMPOSE"
  let ?c = "\<lparr>c_id = uuid, c_type = DEPLOY_COMPOSE,
         c_payload = DeployPayload (q_project_name req) (q_compose_file_base64 req)\<rparr>"
  have "job_by_id (j_id ?j) (db ?w1) = None" "is_connected (j_agent_id ?j) (mgr ?w1)"
    using assms by (simp_all add: new_job_def job_by_id_def)
  from add_job_and_send_raises(1) [OF this, of ?c]
  obtain w2 where "add_job_and_send True ?j ?c ?w1 = (Inl SendFailed, w2)"
    by (cases "add_job_and_send True ?j ?c ?w1") auto
  then show ?thesis using assms(1,2)
    by (simp add: deploy_project_def Let_def)
qed

lemma stop_project_raises:
  assumes "current_deployment p (deployment_tbl (db w)) = Some dep"
      and "target = (case sq_agent_id sreq of None \<Rightarrow> d_agent_id dep
                     | Some b \<Rightarrow> if b = 0 then d_agent_id dep else b)"
      and "is_connected target (mgr w)" and "job_by_id uuid (db w) = None"
  shows "stop_project now uuid True p sreq w =
     (Inl SendFailed,
      snd (add_job_and_send True (new_job now uuid (d_id dep) target STOP_COMPOSE)
        \<lparr>c_id = uuid, c_type = STOP_COMPOSE, c_payload = StopPayload p\<rparr> w))"
proof -
  let ?j = "new_job now uuid (d_id dep) target STOP_COMPOSE"
  let ?c = "\<lparr>c_id = uuid, c_type = STOP_COMPOSE, c_payload = StopPayload p\<rparr>"
  have "job_by_id (j_id ?j) (db w) = None" "is_connected (j_agent_id ?j) (mgr w)"
    using assms by (simp_all add: new_job_def)
  from add_job_and_send_raises(1) [OF this, of ?c]
  obtain w2 where "add_job_and_send True ?j ?c w = (Inl SendFailed, w2)"
    by (cases "add_job_and_send True ?j ?c w") auto
  then show ?thesis using assms(1,3) unfolding assms(2)
    by (simp add: stop_project_def Let_def)
qed

lemma get_project_status_raises:
  assumes "current_deployment p (deployment_tbl (db w)) = Some dep"
      and "is_connected (d_agent_id dep) (mgr w)" and "job_by_id uuid (db w) = None"
  shows "get_project_status now uuid True p w =
     (Inl SendFailed,
      snd (add_job_and_send True (new_job now uuid (d_id dep) (d_agent_id dep) STATUS)
        \<lparr>c_id = uuid, c_type = STATUS, c_payload = StatusPayload p\<rparr> w))"
proof -
  let ?j = "new_job now uuid (d_id dep) (d_agent_id dep) STATUS"
  let ?c = "\<lparr>c_id = uuid, c_type = STATUS, c_payload = StatusPayload p\<rparr>"
  have "job_by_id (j_id ?j) (db w) = None" "is_connected (j_agent_id ?j) (mgr w)"
    using assms by (simp_all add: new_job_def)
  from add_job_and_send_raises(1) [OF this, of ?c]
  obtain w2 where "add_job_and_send True ?j ?c w = (Inl SendFailed, w2)"
    by (cases "add_job_and_send True ?j ?c w") auto
  then show ?thesis using assms(1,2)
    by (simp add: get_project_status_def Let_def)
qed

lemma fold_max_ge_elem: "(x::int) \<in> set xs \<Longrightarrow> x \<le> fold max xs a"
proof (induction xs arbitrary: a)
  case Nil then show ?case by simp
next
  case (Cons y ys)
  show ?case
  proof (cases "x = y")
    case True
    have "y \<le> max y a" by simp
    also have "\<dots> \<le> fold max ys (max y a)" by (rule fold_max_ge)
    finally show ?thesis using True by simp
  next
    case False
    with Cons.prems have "x \<in> set ys" by simp
    then show ?thesis using Cons.IH by simp
  qed
qed

lemma next_id_fresh: "find (\<lambda>x. d_id x = next_id (map d_id ds)) ds = None"
proof -
  have "d_id x < next_id (map d_id ds)" if "x \<in> set ds" for x
    using fold_max_ge_elem [of "d_id x" "map d_id ds" 0] that by (simp add: next_id_def)
  then show ?thesis by (force simp: find_None_iff)
qed

lemma after_web1_connects:
  "find_target_agent None (agent_tbl (db (run [web1_connects] init_world))) = Inr agent_web1"
  "is_connected 1 (mgr (run [web1_connects] init_world))"
  "job_by_id ''J'' (db (run [web1_connects] init_world)) = None"
  "deployment_tbl (db (run [web1_connects] init_world)) = []"
  "agent_tbl (db (run [web1_connects] init_world)) = [agent_web1]"
  "job_tbl (db (run [web1_connects] init_world)) = []"
  by (simp_all add: agent_web1_def scenario_simps run_simps)

lemma after_deploy_x:
  "current_deployment ''x'' (deployment_tbl (db (run [web1_connects, deploy_x] init_world))) =
     Some deployment_x"
  "is_connected 1 (mgr (run [web1_connects, deploy_x] init_world))"
  "job_by_id ''S'' (db (run [web1_connects, deploy_x] init_world)) = None"
  by (simp_all add: deployment_x_def scenario_simps run_simps)

text \<open>
  C7. When the write to the agent's socket raises, in a deploy, stop or status request that
  passed the checks and drew a fresh job id: the request is refused with \<open>SendFailed\<close>, the
  agent is no longer in the connection manager, and the job row the request created is marked
  failed with the error text \<^verbatim>\<open>Failed to send command to agent\<close>.
\<close>

theorem failed_send_tears_down_and_fails_job:
  "(find_target_agent (q_agent_id req) (agent_tbl (db w)) = Inr agent
      \<and> is_connected (a_id agent) (mgr w) \<and> job_by_id uuid (db w) = None \<longrightarrow>
    fst (deploy_project now uuid True req w) = Inl SendFailed
    \<and> \<not> is_connected (a_id agent) (mgr (snd (deploy_project now uuid True req w)))
    \<and> job_by_id uuid (db (snd (deploy_project now uuid True req w))) =
        Some ((new_job now uuid (next_id (map d_id (deployment_tbl (db w)))) (a_id agent)
                 DEPLOY_COMPOSE)
              \<lparr>j_status := ''failed'', j_error := Some ''Failed to send command to agent''\<rparr>))
   \<and> (current_deployment p (deployment_tbl (db w)) = Some dep
      \<and> target = (case sq_agent_id sreq of None \<Rightarrow> d_agent_id dep
                   | Some b \<Rightarrow> if b = 0 then d_agent_id dep else b)
      \<and> is_connected target (mgr w) \<and> job_by_id uuid (db w) = None \<longrightarrow>
    fst (stop_project now uuid True p sreq w) = Inl SendFailed
    \<and> \<not> is_connected target (mgr (snd (stop_project now uuid True p sreq w)))
    \<and> job_by_id uuid (db (snd (stop_project now uuid True p sreq w))) =
        Some ((new_job now uuid (d_id dep) target STOP_COMPOSE)
              \<lparr>j_status := ''failed'', j_error := Some ''Failed to send command to agent''\<rparr>))
   \<and> (current_deployment p (deployment_tbl (db w)) = Some dep
      \<and> is_connected (d_agent_id dep) (mgr w) \<and> job_by_id uuid (db w) = None \<longrightarrow>
    fst (get_project_status now uuid True p w) = Inl SendFailed
    \<and> \<not> is_connected (d_agent_id dep) (mgr (snd (get_project_status now uuid True p w)))
    \<and> job_by_id uuid (db (snd (get_project_status now uuid True p w))) =
        Some ((new_job now uuid (d_id dep) (d_agent_id dep) STATUS)
              \<lparr>j_status := ''failed'', j_error := Some ''Failed to send command to agent''\<rparr>))"
proof (intro conjI impI)
  assume a: "find_target_agent (q_agent_id req) (agent_tbl (db w)) = Inr agent
      \<and> is_connected (a_id agent) (mgr w) \<and> job_by_id uuid (db w) = None"
  let ?w1 = "w\<lparr>db := (db w)\<lparr>deployment_tbl := deployment_tbl (db w) @
                     [\<lparr>d_id = next_id (map d_id (deployment_tbl (db w))),
                       d_project_name = q_project_name req, d_agent_id = a_id agent,
                       d_status = ''pending'', d_compose_file_hash = None,
                       d_created_at = now, d_updated_at = now,
                       d_last_logs = None, d_last_error = None\<rparr>]\<rparr>\<rparr>"
  let ?j = "new_job now uuid (next_id (map d_id (deployment_tbl (db w)))) (a_id agent) DEPLOY_COMPOSE"
  from a have e: "deploy_project now uuid True req w = (Inl SendFailed,
      snd (add_job_and_send True ?j \<lparr>c_id = uuid, c_type = DEPLOY_COMPOSE,
         c_payload = DeployPayload (q_project_name req) (q_compose_file_base64 req)\<rparr> ?w1))"
    by (intro deploy_project_raises) simp_all
  have pre: "job_by_id (j_id ?j) (db ?w1) = None" "is_connected (j_agent_id ?j) (mgr ?w1)"
    using a by (simp_all add: new_job_def job_by_id_def)
  show "fst (deploy_project now uuid True req w) = Inl SendFailed" by (simp add: e)
  show "\<not> is_connected (a_id agent) (mgr (snd (deploy_project now uuid True req w)))"
    using add_job_and_send_raises(2) [OF pre] by (simp add: e new_job_def)
  show "job_by_id uuid (db (snd (deploy_project now uuid True req w))) =
        Some (?j\<lparr>j_status := ''failed'', j_error := Some ''Failed to send command to agent''\<rparr>)"
    using add_job_and_send_raises(4) [OF pre] by (simp add: e new_job_def)
next
  assume a: "current_deployment p (deployment_tbl (db w)) = Some dep
      \<and> target = (case sq_agent_id sreq of None \<Rightarrow> d_agent_id dep
                   | Some b \<Rightarrow> if b = 0 then d_agent_id dep else b)
      \<and> is_connected target (mgr w) \<and> job_by_id uuid (db w) = None"
  let ?j = "new_job now uuid (d_id dep) target STOP_COMPOSE"
  from a have d: "current_deployment p (deployment_tbl (db w)) = Some dep"
    and t: "target = (case sq_agent_id sreq of None \<Rightarrow> d_agent_id dep
                   | Some b \<Rightarrow> if b = 0 then d_agent_id dep else b)"
    and c: "is_connected target (mgr w)" and n: "job_by_id uuid (db w) = None"
    by blast+
  note e = stop_project_raises [OF d t c n, of now]
  have pre: "job_by_id (j_id ?j) (db w) = None" "is_connected (j_agent_id ?j) (mgr w)"
    using c n by (simp_all add: new_job_def)
  show "fst (stop_project now uuid True p sreq w) = Inl SendFailed" by (simp add: e)
  show "\<not> is_connected target (mgr (snd (stop_project now uuid True p sreq w)))"
    using add_job_and_send_raises(2) [OF pre] by (simp add: e new_job_def)
  show "job_by_id uuid (db (snd (stop_project now uuid True p sreq w))) =
        Some (?j\<lparr>j_status := ''failed'', j_error := Some ''Failed to send command to agent''\<rparr>)"
    using add_job_and_send_raises(4) [OF pre] by (simp add: e new_job_def)
next
  assume a: "current_deployment p (deployment_tbl (db w)) = Some dep
      \<and> is_connected (d_agent_id dep) (mgr w) \<and> job_by_id uuid (db w) = None"
  let ?j = "new_job now uuid (d_id dep) (d_agent_id dep) STATUS"
  from a have e: "get_project_status now uuid True p w = (Inl SendFailed,
      snd (add_job_and_send True ?j \<lparr>c_id = uuid, c_type = STATUS, c_payload = StatusPayload p\<rparr> w))"
    by (intro get_project_status_raises) simp_all
  have pre: "job_by_id (j_id ?j) (db w) = None" "is_connected (j_agent_id ?j) (mgr w)"
    using a by (simp_all add: new_job_def)
  show "fst (get_project_status now uuid True p w) = Inl SendFailed" by (simp add: e)
  show "\<not> is_connected (d_agent_id dep) (mgr (snd (get_project_status now uuid True p w)))"
    using add_job_and_send_raises(2) [OF pre] by (simp add: e new_job_def)
  show "job_by_id uuid (db (snd (get_project_status now uuid True p w))) =
        Some (?j\<lparr>j_status := ''failed'', j_error := Some ''Failed to send command to agent''\<rparr>)"
    using add_job_and_send_raises(4) [OF pre] by (simp add: e new_job_def)
qed

theorem failed_send_tears_down_and_fails_job_witness:
  "fst (deploy_project 2 ''J'' True
          \<lparr>q_project_name = ''x'', q_compose_file_base64 = ''Y29tcG9zZQ=='', q_agent_id = None\<rparr>
          (run [web1_connects] init_world)) = Inl SendFailed
   \<and> \<not> is_connected 1 (mgr (snd (deploy_project 2 ''J'' True
          \<lparr>q_project_name = ''x'', q_compose_file_base64 = ''Y29tcG9zZQ=='', q_agent_id = None\<rparr>
          (run [web1_connects] init_world))))
   \<and> job_by_id ''J'' (db (snd (deploy_project 2 ''J'' True
          \<lparr>q_project_name = ''x'', q_compose_file_base64 = ''Y29tcG9zZQ=='', q_agent_id = None\<rparr>
          (run [web1_connects] init_world)))) =
       Some ((new_job 2 ''J'' 1 1 DEPLOY_COMPOSE)
              \<lparr>j_status := ''failed'', j_error := Some ''Failed to send command to agent''\<rparr>)
   \<and> fst (stop_project 3 ''S'' True ''x'' \<lparr>sq_agent_id = None\<rparr>
          (run [web1_connects, deploy_x] init_world)) = Inl SendFailed
   \<and> \<not> is_connected 1 (mgr (snd (stop_project 3 ''S'' True ''x'' \<lparr>sq_agent_id = None\<rparr>
          (run [web1_connects, deploy_x] init_world))))
   \<and> job_by_id ''S'' (db (snd (get_project_status 3 ''S'' True ''x''
          (run [web1_connects, deploy_x] init_world)))) =
       Some ((new_job 3 ''S'' 1 1 STATUS)
              \<lparr>j_status := ''failed'', j_error := Some ''Failed to send command to agent''\<rparr>)"
  using failed_send_tears_down_and_fails_job [of
      "\<lparr>q_project_name = ''x'', q_compose_file_base64 = ''Y29tcG9zZQ=='', q_agent_id = None\<rparr>"
      "run [web1_connects] init_world" agent_web1 "''J''" 2]
    failed_send_tears_down_and_fails_job [of _ "run [web1_connects, deploy_x] init_world" _
      "''S''" 3 "''x''" deployment_x 1 "\<lparr>sq_agent_id = None\<rparr>"]
    after_web1_connects after_deploy_x
  by (simp add: agent_web1_def deployment_x_def next_id_def)

text \<open>
  C10. When the write raises in a deploy request, the deployment row the request created is
  the last row of the deployment table, with status pending and no logs or error, and the
  earlier rows are as before; the agent table is as before; the job table has gained the
  request's job, marked failed.
\<close>

theorem failed_send_leaves_deployment_pending:
  "find_target_agent (q_agent_id req) (agent_tbl (db w)) = Inr agent
     \<and> is_connected (a_id agent) (mgr w) \<and> job_by_id uuid (db w) = None \<longrightarrow>
   deployment_tbl (db (snd (deploy_project now uuid True req w))) =
     deployment_tbl (db w) @
       [\<lparr>d_id = next_id (map d_id (deployment_tbl (db w))),
         d_project_name = q_project_name req, d_agent_id = a_id agent,
         d_status = ''pending'', d_compose_file_hash = None,
         d_created_at = now, d_updated_at = now,
         d_last_logs = None, d_last_error = None\<rparr>]
   \<and> deployment_by_id (next_id (map d_id (deployment_tbl (db w))))
         (db (snd (deploy_project now uuid True req w))) =
       Some \<lparr>d_id = next_id (map d_id (deployment_tbl (db w))),
         d_project_name = q_project_name req, d_agent_id = a_id agent,
         d_status = ''pending'', d_compose_file_hash = None,
         d_created_at = now, d_updated_at = now,
         d_last_logs = None, d_last_error = None\<rparr>
   \<and> agent_tbl (db (snd (deploy_project now uuid True req w))) = agent_tbl (db w)
   \<and> job_tbl (db (snd (deploy_project now uuid True req w))) =
       job_tbl (db w) @
         [(new_job now uuid (next_id (map d_id (deployment_tbl (db w)))) (a_id agent)
             DEPLOY_COMPOSE)
          \<lparr>j_status := ''failed'', j_error := Some ''Failed to send command to agent''\<rparr>]"
proof (intro impI)
  assume a: "find_target_agent (q_agent_id req) (agent_tbl (db w)) = Inr agent
     \<and> is_connected (a_id agent) (mgr w) \<and> job_by_id uuid (db w) = None"
  let ?d = "\<lparr>d_id = next_id (map d_id (deployment_tbl (db w))),
         d_project_name = q_project_name req, d_agent_id = a_id agent,
         d_status = ''pending'', d_compose_file_hash = None,
         d_created_at = now, d_updated_at = now,
         d_last_logs = None, d_last_error = None\<rparr>"
  let ?w1 = "w\<lparr>db := (db w)\<lparr>deployment_tbl := deployment_tbl (db w) @ [?d]\<rparr>\<rparr>"
  let ?j = "new_job now uuid (next_id (map d_id (deployment_tbl (db w)))) (a_id agent) DEPLOY_COMPOSE"
  from a have e: "deploy_project now uuid True req w = (Inl SendFailed,
      snd (add_job_and_send True ?j \<lparr>c_id = uuid, c_type = DEPLOY_COMPOSE,
         c_payload = DeployPayload (q_project_name req) (q_compose_file_base64 req)\<rparr> ?w1))"
    by (intro deploy_project_raises) simp_all
  have pre: "job_by_id (j_id ?j) (db ?w1) = None" "is_connected (j_agent_id ?j) (mgr ?w1)"
    using a by (simp_all add: new_job_def job_by_id_def)
  have t: "deployment_tbl (db (snd (deploy_project now uuid True req w))) =
     deployment_tbl (db w) @ [?d]"
    by (simp add: e deployment_tbl_add_job_and_send)
  have f: "deployment_by_id (next_id (map d_id (deployment_tbl (db w))))
         (db (snd (deploy_project now uuid True req w))) = Some ?d"
    unfolding deployment_by_id_def t
    by (rule find_append_new) (simp_all add: next_id_fresh)
  have g: "agent_tbl (db (snd (deploy_project now uuid True req w))) = agent_tbl (db w)"
    by (simp add: e agent_tbl_add_job_and_send)
  have h: "job_tbl (db (snd (deploy_project now uuid True req w))) =
       job_tbl (db w) @
         [?j\<lparr>j_status := ''failed'', j_error := Some ''Failed to send command to agent''\<rparr>]"
    using add_job_and_send_raises(3) [OF pre] by (simp add: e)
  from t f g h show "deployment_tbl (db (snd (deploy_project now uuid True req w))) =
     deployment_tbl (db w) @ [?d]
   \<and> deployment_by_id (next_id (map d_id (deployment_tbl (db w))))
         (db (snd (deploy_project now uuid True req w))) = Some ?d
   \<and> agent_tbl (db (snd (deploy_project now uuid True req w))) = agent_tbl (db w)
   \<and> job_tbl (db (snd (deploy_project now uuid True req w))) =
       job_tbl (db w) @
         [?j\<lparr>j_status := ''failed'', j_error := Some ''Failed to send command to agent''\<rparr>]"
    by blast
qed

theorem failed_send_leaves_deployment_pending_witness:
  "deployment_tbl (db (snd (deploy_project 2 ''J'' True
          \<lparr>q_project_name = ''x'', q_compose_file_base64 = ''Y29tcG9zZQ=='', q_agent_id = None\<rparr>
          (run [web1_connects] init_world)))) = [deployment_x]
   \<and> agent_tbl (db (snd (deploy_project 2 ''J'' True
          \<lparr>q_project_name = ''x'', q_compose_file_base64 = ''Y29tcG9zZQ=='', q_agent_id = None\<rparr>
          (run [web1_connects] init_world)))) = [agent_web1]
   \<and> d_status deployment_x = ''pending''"
  using failed_send_leaves_deployment_pending [of
      "\<lparr>q_project_name = ''x'', q_compose_file_base64 = ''Y29tcG9zZQ=='', q_agent_id = None\<rparr>"
      "run [web1_connects] init_world" agent_web1 "''J''" 2]
    after_web1_connects
  by (simp add: agent_web1_def deployment_x_def next_id_def)

section \<open>Sessions\<close>

text \<open>
  C2, as the claim states it, fails: agent 1 is registered on socket 1; when it connects again
  on socket 2 the entry becomes socket 2, and the calls made on sockets up to then are the two
  \<^verbatim>\<open>accept\<close>s. Socket 1 was never closed.
\<close>

theorem old_session_not_closed_counterexample:
  "active_connections (mgr (run [web1_connects] init_world)) 1 = Some 1
   \<and> active_connections (mgr (run [web1_connects, web1_reconnects] init_world)) 1 = Some 2
   \<and> ws_calls (mgr (run [web1_connects, web1_reconnects] init_world)) = [WsAccept 1, WsAccept 2]"
  by (simp add: web1_reconnects_def scenario_simps run_simps)

lemma map_update_row: "(\<And>x. g (f x) = g x) \<Longrightarrow> map g (update_row P f rs) = map g rs"
  by (induction rs) auto

lemma filter_update_row:
  "(\<And>x. P (f x) = P x) \<Longrightarrow> filter P (update_row P f rs) = update_row P f (filter P rs)"
  by (induction rs) auto

lemma find_filter_Cons: "filter P rs = x # rest \<Longrightarrow> find P rs = Some x"
  by (induction rs) (auto split: if_splits)

lemma distinct_filter_key:
  "distinct (map f xs) \<Longrightarrow> length (filter (\<lambda>x. f x = k) xs) \<le> 1"
proof (induction xs)
  case Nil then show ?case by simp
next
  case (Cons y ys)
  show ?case
  proof (cases "f y = k")
    case True
    with Cons.prems have "\<forall>x\<in>set ys. f x \<noteq> k" by (auto simp: image_iff)
    then have "filter (\<lambda>x. f x = k) ys = []" by (simp add: filter_empty_conv)
    with True show ?thesis by simp
  next
    case False
    with Cons show ?thesis by simp
  qed
qed

lemma length_map_filter: "length (List.map_filter g xs) \<le> length xs"
  by (induction xs) (auto split: option.splits)

lemma hostnames_distinct_step: "hostnames_distinct w \<Longrightarrow> hostnames_distinct (step ev w)"
proof (cases ev)
  case (Open now au h v a ip ws)
  assume d: "hostnames_distinct w"
  show ?thesis
  proof (cases "find (\<lambda>x. a_hostname x = or_unknown h) (agent_tbl (db w))")
    case None
    then have "or_unknown h \<notin> a_hostname ` set (agent_tbl (db w))"
      by (auto simp: find_None_iff)
    with d None Open show ?thesis
      by (simp add: hostnames_distinct_def websocket_endpoint_open_def Let_def)
  next
    case (Some agent)
    with d Open show ?thesis
      by (simp add: hostnames_distinct_def websocket_endpoint_open_def Let_def map_update_row)
  qed
next
  case (Reply now r)
  assume "hostnames_distinct w"
  then show ?thesis using Reply
    by (simp add: hostnames_distinct_def websocket_endpoint_reply_def agent_tbl_handle_response)
next
  case (Finally now a)
  assume "hostnames_distinct w"
  then show ?thesis using Finally
    by (simp add: hostnames_distinct_def websocket_endpoint_finally_def map_update_row)
next
  case (Deploy now uuid sr req)
  assume "hostnames_distinct w"
  then show ?thesis using Deploy
    by (simp add: hostnames_distinct_def snd_deploy_project agent_tbl_add_job_and_send
        split: sum.splits)
next
  case (Stop now uuid sr p req)
  assume "hostnames_distinct w"
  then show ?thesis using Stop
    by (simp add: hostnames_distinct_def snd_stop_project Let_def agent_tbl_add_job_and_send
        split: option.splits)
next
  case (GetStatus now uuid sr p)
  assume "hostnames_distinct w"
  then show ?thesis using GetStatus
    by (simp add: hostnames_distinct_def snd_get_project_status agent_tbl_add_job_and_send
        split: option.splits)
qed

lemma hostnames_distinct_fold:
  "hostnames_distinct w \<Longrightarrow> hostnames_distinct (fold step evs w)"
  by (induction evs arbitrary: w) (simp_all add: hostnames_distinct_step)

lemma hostnames_distinct_run: "hostnames_distinct (run evs init_world)"
  unfolding run_def
  by (rule hostnames_distinct_fold) (simp add: hostnames_distinct_def init_world_def empty_db_def)

lemma sessions_of_at_most_one:
  "hostnames_distinct w \<Longrightarrow> length (sessions_of hostname w) \<le> 1"
proof -
  assume "hostnames_distinct w"
  then have "length (filter (\<lambda>x. a_hostname x = hostname) (agent_tbl (db w))) \<le> 1"
    unfolding hostnames_distinct_def by (rule distinct_filter_key)
  moreover have "length (sessions_of hostname w) \<le>
      length (filter (\<lambda>x. a_hostname x = hostname) (agent_tbl (db w)))"
    unfolding sessions_of_def by (rule length_map_filter)
  ultimately show ?thesis by simp
qed

lemma sessions_of_single:
  assumes "hostnames_distinct w" and "sessions_of hostname w = [old]"
  shows "\<exists>agent. filter (\<lambda>x. a_hostname x = hostname) (agent_tbl (db w)) = [agent]
           \<and> active_connections (mgr w) (a_id agent) = Some old"
proof -
  let ?F = "filter (\<lambda>x. a_hostname x = hostname) (agent_tbl (db w))"
  from assms(1) have l: "length ?F \<le> 1"
    unfolding hostnames_distinct_def by (rule distinct_filter_key)
  from assms(2) have "?F \<noteq> []" by (auto simp: sessions_of_def)
  with l obtain agent where f: "?F = [agent]"
    by (cases ?F) (auto simp: length_Suc_conv)
  with assms(2) have "active_connections (mgr w) (a_id agent) = Some old"
    by (auto simp: sessions_of_def split: option.splits)
  with f show ?thesis by blast
qed

lemma open_known_agent:
  assumes "filter (\<lambda>x. a_hostname x = or_unknown h) (agent_tbl (db w)) = [agent]"
  shows "fst (websocket_endpoint_open now True h v a ip ws w) = Some (a_id agent)"
    and "sessions_of (or_unknown h) (snd (websocket_endpoint_open now True h v a ip ws w)) = [ws]"
    and "active_connections (mgr (snd (websocket_endpoint_open now True h v a ip ws w))) =
           (active_connections (mgr w))(a_id agent \<mapsto> ws)"
proof -
  let ?P = "\<lambda>x. a_hostname x = or_unknown h"
  let ?f = "\<lambda>x. x\<lparr>a_status := ''online'', a_last_seen := now,
                    a_version := Some (or_unknown v), a_architecture := Some (or_unknown a),
                    a_ip_address := ip\<rparr>"
  from assms have f: "find ?P (agent_tbl (db w)) = Some agent" by (rule find_filter_Cons)
  then have o: "websocket_endpoint_open now True h v a ip ws w =
      (Some (a_id agent),
       w\<lparr>db := (db w)\<lparr>agent_tbl := update_row ?P ?f (agent_tbl (db w))\<rparr>,
         mgr := connect (a_id agent) (or_unknown h) ws (mgr w)\<rparr>)"
    by (simp add: websocket_endpoint_open_def Let_def)
  show "fst (websocket_endpoint_open now True h v a ip ws w) = Some (a_id agent)"
    by (simp add: o)
  show "active_connections (mgr (snd (websocket_endpoint_open now True h v a ip ws w))) =
           (active_connections (mgr w))(a_id agent \<mapsto> ws)"
    by (simp add: o connect_def)
  have "filter ?P (update_row ?P ?f (agent_tbl (db w))) = update_row ?P ?f (filter ?P (agent_tbl (db w)))"
    by (rule filter_update_row) simp
  also have "\<dots> = [?f agent]" using assms find_Some_holds [OF f] by simp
  finally show "sessions_of (or_unknown h) (snd (websocket_endpoint_open now True h v a ip ws w)) = [ws]"
    by (simp add: o sessions_of_def connect_def)
qed

lemma ws_calls_open:
  "ws_calls (mgr (snd (websocket_endpoint_open now True h v a ip ws w))) =
     ws_calls (mgr w) @ [WsAccept ws]"
  by (simp add: websocket_endpoint_open_def Let_def connect_def split: option.splits prod.splits)

lemma sessions_after_web1_connects:
  "sessions_of ''web-1'' (run [web1_connects] init_world) = [1]"
  "ws_calls (mgr (run [web1_connects] init_world)) = [WsAccept 1]"
  by (simp_all add: sessions_of_def scenario_simps run_simps)

text \<open>
  C2, amended. In every state the system reaches, the connection manager holds at most one
  socket for an agent identity. When an authorized connection arrives for an identity whose
  session is the socket \<open>old\<close>, the endpoint resolves the identity to the agent row it
  already has, and the new socket takes the place of \<open>old\<close> as the entry of that row's id
  and as the identity's one session. The old session is not torn down: the only call a
  registration makes on a socket is \<^verbatim>\<open>accept\<close> on the new one.
\<close>

theorem reconnect_replaces_session:
  assumes "w = run evs init_world"
  shows "length (sessions_of hostname w) \<le> 1
     \<and> ws_calls (mgr (snd (websocket_endpoint_open now True h v a ip ws w))) =
         ws_calls (mgr w) @ [WsAccept ws]
     \<and> (sessions_of (or_unknown h) w = [old] \<longrightarrow>
         (\<exists>agent. find (\<lambda>x. a_hostname x = or_unknown h) (agent_tbl (db w)) = Some agent
            \<and> active_connections (mgr w) (a_id agent) = Some old
            \<and> fst (websocket_endpoint_open now True h v a ip ws w) = Some (a_id agent)
            \<and> active_connections (mgr (snd (websocket_endpoint_open now True h v a ip ws w))) =
                (active_connections (mgr w))(a_id agent \<mapsto> ws)
            \<and> sessions_of (or_unknown h)
                 (snd (websocket_endpoint_open now True h v a ip ws w)) = [ws]))"
proof (intro conjI impI)
  from assms have d: "hostnames_distinct w" by (simp add: hostnames_distinct_run)
  then show "length (sessions_of hostname w) \<le> 1" by (rule sessions_of_at_most_one)
  show "ws_calls (mgr (snd (websocket_endpoint_open now True h v a ip ws w))) =
         ws_calls (mgr w) @ [WsAccept ws]" by (rule ws_calls_open)
  assume "sessions_of (or_unknown h) w = [old]"
  from sessions_of_single [OF d this] obtain agent where
    f: "filter (\<lambda>x. a_hostname x = or_unknown h) (agent_tbl (db w)) = [agent]"
    and c: "active_connections (mgr w) (a_id agent) = Some old" by blast
  from find_filter_Cons [OF f] c open_known_agent [OF f, of now v a ip ws]
  show "\<exists>agent. find (\<lambda>x. a_hostname x = or_unknown h) (agent_tbl (db w)) = Some agent
            \<and> active_connections (mgr w) (a_id agent) = Some old
            \<and> fst (websocket_endpoint_open now True h v a ip ws w) = Some (a_id agent)
            \<and> active_connections (mgr (snd (websocket_endpoint_open now True h v a ip ws w))) =
                (active_connections (mgr w))(a_id agent \<mapsto> ws)
            \<and> sessions_of (or_unknown h)
                 (snd (websocket_endpoint_open now True h v a ip ws w)) = [ws]"
    by blast
qed

theorem reconnect_replaces_session_witness:
  "fst (websocket_endpoint_open 5 True (Some ''web-1'') (Some ''1.1'')
       (Some ''amd64'') (Some ''10.0.0.5'') 2 (run [web1_connects] init_world)) = Some 1
   \<and> sessions_of ''web-1'' (snd (websocket_endpoint_open 5 True (Some ''web-1'') (Some ''1.1'')
       (Some ''amd64'') (Some ''10.0.0.5'') 2 (run [web1_connects] init_world))) = [2]
   \<and> ws_calls (mgr (snd (websocket_endpoint_open 5 True (Some ''web-1'') (Some ''1.1'')
       (Some ''amd64'') (Some ''10.0.0.5'') 2 (run [web1_connects] init_world)))) =
       [WsAccept 1, WsAccept 2]"
  using reconnect_replaces_session [OF refl, of "''web-1''" "[web1_connects]" 5 "Some ''web-1''"
      "Some ''1.1''" "Some ''amd64''" "Some ''10.0.0.5''" 2 1]
    sessions_after_web1_connects after_web1_connects(5)
  by (auto simp: or_unknown_def agent_web1_def)

section \<open>Teardown of a session\<close>

text \<open>
  C4, as the claim states it, fails: in the scenario the agent's handler leaves its loop before
  any reply for job \<^verbatim>\<open>J\<close>; after the teardown the agent is no longer connected and the job is
  still queued, with no error.
\<close>

theorem teardown_leaves_job_queued_counterexample:
  "job_by_id ''J'' (db (run [web1_connects, deploy_x, Finally 3 1] init_world)) =
     Some (new_job 2 ''J'' 1 1 DEPLOY_COMPOSE)
   \<and> j_status (new_job 2 ''J'' 1 1 DEPLOY_COMPOSE) = ''queued''
   \<and> j_error (new_job 2 ''J'' 1 1 DEPLOY_COMPOSE) = None
   \<and> \<not> is_connected 1 (mgr (run [web1_connects, deploy_x, Finally 3 1] init_world))"
  by (simp add: scenario_simps run_simps)

lemma find_update_row_map:
  "(\<And>x. P (f x) = P x) \<Longrightarrow> find P (update_row P f rs) = map_option f (find P rs)"
  by (induction rs) auto

lemma after_deploy_x_tables:
  "agent_tbl (db (run [web1_connects, deploy_x] init_world)) = [agent_web1]"
  by (simp add: agent_web1_def scenario_simps run_simps)

text \<open>
  C4, amended. No teardown of a session fails the jobs that wait for a reply: a job that
  exists keeps its record, still queued. The teardown at the end of the agent's handler
  removes the agent from the connection manager and marks the agent's row offline with the
  teardown time; it leaves the job and the deployment tables as they are. The teardown after
  a write that raises, in a deploy, stop or status request, removes the agent from the
  connection manager only: the agent table is as before, so the row stays online, and every
  job that existed before the request keeps its record.
\<close>

theorem teardown_leaves_jobs_unchanged:
  "job_tbl (db (websocket_endpoint_finally now agent_id w)) = job_tbl (db w)
   \<and> deployment_tbl (db (websocket_endpoint_finally now agent_id w)) = deployment_tbl (db w)
   \<and> \<not> is_connected agent_id (mgr (websocket_endpoint_finally now agent_id w))
   \<and> agent_by_id agent_id (db (websocket_endpoint_finally now agent_id w)) =
       map_option (\<lambda>a. a\<lparr>a_status := ''offline'', a_last_seen := now\<rparr>) (agent_by_id agent_id (db w))
   \<and> (job_by_id jid (db w) = Some job \<longrightarrow>
        job_by_id jid (db (snd (deploy_project now uuid True req w))) = Some job
        \<and> job_by_id jid (db (snd (stop_project now uuid True p sreq w))) = Some job
        \<and> job_by_id jid (db (snd (get_project_status now uuid True p w))) = Some job)
   \<and> agent_tbl (db (snd (deploy_project now uuid True req w))) = agent_tbl (db w)
   \<and> agent_tbl (db (snd (stop_project now uuid True p sreq w))) = agent_tbl (db w)
   \<and> agent_tbl (db (snd (get_project_status now uuid True p w))) = agent_tbl (db w)
   \<and> deployment_tbl (db (snd (stop_project now uuid True p sreq w))) = deployment_tbl (db w)
   \<and> deployment_tbl (db (snd (get_project_status now uuid True p w))) = deployment_tbl (db w)
   \<and> (find_target_agent (q_agent_id req) (agent_tbl (db w)) = Inr agent
        \<and> is_connected (a_id agent) (mgr w) \<and> job_by_id uuid (db w) = None \<longrightarrow>
       \<not> is_connected (a_id agent) (mgr (snd (deploy_project now uuid True req w))))
   \<and> (current_deployment p (deployment_tbl (db w)) = Some dep
        \<and> target = (case sq_agent_id sreq of None \<Rightarrow> d_agent_id dep
                     | Some b \<Rightarrow> if b = 0 then d_agent_id dep else b)
        \<and> is_connected target (mgr w) \<and> job_by_id uuid (db w) = None \<longrightarrow>
       \<not> is_connected target (mgr (snd (stop_project now uuid True p sreq w))))
   \<and> (current_deployment p (deployment_tbl (db w)) = Some dep
        \<and> is_connected (d_agent_id dep) (mgr w) \<and> job_by_id uuid (db w) = None \<longrightarrow>
       \<not> is_connected (d_agent_id dep) (mgr (snd (get_project_status now uuid True p w))))"
proof (intro conjI impI)
  show "job_tbl (db (websocket_endpoint_finally now agent_id w)) = job_tbl (db w)"
    and "deployment_tbl (db (websocket_endpoint_finally now agent_id w)) = deployment_tbl (db w)"
    by (simp_all add: websocket_endpoint_finally_def)
  show "\<not> is_connected agent_id (mgr (websocket_endpoint_finally now agent_id w))"
    by (simp add: websocket_endpoint_finally_def is_connected_def disconnect_def Let_def)
  show "agent_by_id agent_id (db (websocket_endpoint_finally now agent_id w)) =
       map_option (\<lambda>a. a\<lparr>a_status := ''offline'', a_last_seen := now\<rparr>) (agent_by_id agent_id (db w))"
    by (simp add: websocket_endpoint_finally_def agent_by_id_def find_update_row_map)
  show "agent_tbl (db (snd (deploy_project now uuid True req w))) = agent_tbl (db w)"
    by (simp add: snd_deploy_project agent_tbl_add_job_and_send split: sum.splits)
  show "agent_tbl (db (snd (stop_project now uuid True p sreq w))) = agent_tbl (db w)"
    by (simp add: snd_stop_project Let_def agent_tbl_add_job_and_send split: option.splits)
  show "agent_tbl (db (snd (get_project_status now uuid True p w))) = agent_tbl (db w)"
    by (simp add: snd_get_project_status agent_tbl_add_job_and_send split: option.splits)
  show "deployment_tbl (db (snd (stop_project now uuid True p sreq w))) = deployment_tbl (db w)"
    by (simp add: snd_stop_project Let_def deployment_tbl_add_job_and_send split: option.splits)
  show "deployment_tbl (db (snd (get_project_status now uuid True p w))) = deployment_tbl (db w)"
    by (simp add: snd_get_project_status deployment_tbl_add_job_and_send split: option.splits)
next
  assume j: "job_by_id jid (db w) = Some job"
  from job_by_id_step_frame [OF j, of "Deploy now uuid True req"]
  show "job_by_id jid (db (snd (deploy_project now uuid True req w))) = Some job" by simp
  from job_by_id_step_frame [OF j, of "Stop now uuid True p sreq"]
  show "job_by_id jid (db (snd (stop_project now uuid True p sreq w))) = Some job" by simp
  from job_by_id_step_frame [OF j, of "GetStatus now uuid True p"]
  show "job_by_id jid (db (snd (get_project_status now uuid True p w))) = Some job" by simp
next
  assume a: "find_target_agent (q_agent_id req) (agent_tbl (db w)) = Inr agent
        \<and> is_connected (a_id agent) (mgr w) \<and> job_by_id uuid (db w) = None"
  let ?w1 = "w\<lparr>db := (db w)\<lparr>deployment_tbl := deployment_tbl (db w) @
                     [\<lparr>d_id = next_id (map d_id (deployment_tbl (db w))),
                       d_project_name = q_project_name req, d_agent_id = a_id agent,
                       d_status = ''pending'', d_compose_file_hash = None,
                       d_created_at = now, d_updated_at = now,
                       d_last_logs = None, d_last_error = None\<rparr>]\<rparr>\<rparr>"
  let ?j = "new_job now uuid (next_id (map d_id (deployment_tbl (db w)))) (a_id agent) DEPLOY_COMPOSE"
  from a have e: "deploy_project now uuid True req w = (Inl SendFailed,
      snd (add_job_and_send True ?j \<lparr>c_id = uuid, c_type = DEPLOY_COMPOSE,
         c_payload = DeployPayload (q_project_name req) (q_compose_file_base64 req)\<rparr> ?w1))"
    by (intro deploy_project_raises) simp_all
  have pre: "job_by_id (j_id ?j) (db ?w1) = None" "is_connected (j_agent_id ?j) (mgr ?w1)"
    using a by (simp_all add: new_job_def job_by_id_def)
  show "\<not> is_connected (a_id agent) (mgr (snd (deploy_project now uuid True req w)))"
    using add_job_and_send_raises(2) [OF pre] by (simp add: e new_job_def)
next
  assume a: "current_deployment p (deployment_tbl (db w)) = Some dep
        \<and> target = (case sq_agent_id sreq of None \<Rightarrow> d_agent_id dep
                     | Some b \<Rightarrow> if b = 0 then d_agent_id dep else b)
        \<and> is_connected target (mgr w) \<and> job_by_id uuid (db w) = None"
  let ?j = "new_job now uuid (d_id dep) target STOP_COMPOSE"
  from a have d: "current_deployment p (deployment_tbl (db w)) = Some dep"
    and t: "target = (case sq_agent_id sreq of None \<Rightarrow> d_agent_id dep
                   | Some b \<Rightarrow> if b = 0 then d_agent_id dep else b)"
    and c: "is_connected target (mgr w)" and n: "job_by_id uuid (db w) = None"
    by blast+
  note e = stop_project_raises [OF d t c n, of now]
  have pre: "job_by_id (j_id ?j) (db w) = None" "is_connected (j_agent_id ?j) (mgr w)"
    using c n by (simp_all add: new_job_def)
  show "\<not> is_connected target (mgr (snd (stop_project now uuid True p sreq w)))"
    using add_job_and_send_raises(2) [OF pre] by (simp add: e new_job_def)
next
  assume a: "current_deployment p (deployment_tbl (db w)) = Some dep
        \<and> is_connected (d_agent_id dep) (mgr w) \<and> job_by_id uuid (db w) = None"
  let ?j = "new_job now uuid (d_id dep) (d_agent_id dep) STATUS"
  from a have e: "get_project_status now uuid True p w = (Inl SendFailed,
      snd (add_job_and_send True ?j \<lparr>c_id = uuid, c_type = STATUS, c_payload = StatusPayload p\<rparr> w))"
    by (intro get_project_status_raises) simp_all
  have pre: "job_by_id (j_id ?j) (db w) = None" "is_connected (j_agent_id ?j) (mgr w)"
    using a by (simp_all add: new_job_def)
  show "\<not> is_connected (d_agent_id dep) (mgr (snd (get_project_status now uuid True p w)))"
    using add_job_and_send_raises(2) [OF pre] by (simp add: e new_job_def)
qed

theorem teardown_leaves_jobs_unchanged_witness:
  "job_by_id ''J'' (db (snd (stop_project 3 ''S'' True ''x'' \<lparr>sq_agent_id = None\<rparr>
       (run [web1_connects, deploy_x] init_world)))) = Some (new_job 2 ''J'' 1 1 DEPLOY_COMPOSE)
   \<and> j_status (new_job 2 ''J'' 1 1 DEPLOY_COMPOSE) = ''queued''
   \<and> \<not> is_connected 1 (mgr (snd (stop_project 3 ''S'' True ''x'' \<lparr>sq_agent_id = None\<rparr>
       (run [web1_connects, deploy_x] init_world))))
   \<and> agent_tbl (db (snd (stop_project 3 ''S'' True ''x'' \<lparr>sq_agent_id = None\<rparr>
       (run [web1_connects, deploy_x] init_world)))) = [agent_web1]
   \<and> a_status agent_web1 = ''online''
   \<and> job_by_id ''J'' (db (snd (get_project_status 3 ''S'' True ''x''
       (run [web1_connects, deploy_x] init_world)))) = Some (new_job 2 ''J'' 1 1 DEPLOY_COMPOSE)
   \<and> \<not> is_connected 1 (mgr (snd (get_project_status 3 ''S'' True ''x''
       (run [web1_connects, deploy_x] init_world))))"
  using teardown_leaves_jobs_unchanged [of 3 _ "run [web1_connects, deploy_x] init_world"
      "''J''" "new_job 2 ''J'' 1 1 DEPLOY_COMPOSE" "''S''" _ "''x''" "\<lparr>sq_agent_id = None\<rparr>"
      _ deployment_x 1]
    job_J_deployed after_deploy_x after_deploy_x_tables
  by (simp add: deployment_x_def agent_web1_def new_job_def)

section \<open>The current deployment of a project\<close>

lemma current_deployment_Some:
  assumes "current_deployment p ds = Some x"
  shows "x \<in> set ds" and "d_project_name x = p"
    and "y \<in> set ds \<Longrightarrow> d_project_name y = p \<Longrightarrow> d_created_at y \<le> d_created_at x"
proof -
  let ?k = "\<lambda>x. - int (d_created_at x)"
  let ?f = "filter (\<lambda>x. d_project_name x = p) ds"
  from assms obtain rest where s: "sort_key ?k ?f = x # rest"
    by (auto simp: current_deployment_def split: list.splits)
  have "set (sort_key ?k ?f) = set ?f" by simp
  with s have m: "set ?f = insert x (set rest)" by simp
  then have "x \<in> set ?f" by simp
  then show "x \<in> set ds" and "d_project_name x = p" by simp_all
  have "sorted (map ?k (sort_key ?k ?f))" by (rule sorted_sort_key)
  with s have le: "\<forall>z\<in>set rest. ?k x \<le> ?k z" by simp
  assume "y \<in> set ds" and "d_project_name y = p"
  then have "y \<in> set ?f" by simp
  with m have "y = x \<or> y \<in> set rest" by simp
  with le show "d_created_at y \<le> d_created_at x" by auto
qed

lemma current_deployment_exists:
  assumes "y \<in> set ds" and "d_project_name y = p"
  shows "\<exists>x. current_deployment p ds = Some x"
proof -
  let ?k = "\<lambda>x. - int (d_created_at x)"
  let ?f = "filter (\<lambda>x. d_project_name x = p) ds"
  from assms have "?f \<noteq> []" by (auto simp: filter_empty_conv)
  then have "length (sort_key ?k ?f) \<noteq> 0" by (simp only: length_sort length_0_conv not_False_eq_True)
  then have "sort_key ?k ?f \<noteq> []" by (simp only: length_0_conv not_False_eq_True)
  then show ?thesis by (simp add: current_deployment_def split: list.splits)
qed

lemma add_job_and_send_ok:
  assumes "add_job_and_send sr j c w = (Inr u, w')"
  shows "job_by_id (j_id j) (db w') = Some j"
proof -
  from assms have n: "find (\<lambda>x. j_id x = j_id j) (job_tbl (db w)) = None"
    by (auto simp: add_job_and_send_def split: if_splits)
  from assms n have "job_tbl (db w') = job_tbl (db w) @ [j]"
    by (auto simp: add_job_and_send_def Let_def split: prod.splits if_splits)
  with n show ?thesis by (simp add: job_by_id_def find_append_new)
qed

lemma stop_project_ok:
  assumes "stop_project now uuid sr p sreq w = (Inr resp, w')"
      and "current_deployment p (deployment_tbl (db w)) = Some x"
  shows "map_option j_deployment_id (job_by_id uuid (db w')) = Some (Some (d_id x))"
proof -
  let ?target = "case sq_agent_id sreq of None \<Rightarrow> d_agent_id x
                 | Some b \<Rightarrow> if b = 0 then d_agent_id x else b"
  let ?j = "new_job now uuid (d_id x) ?target STOP_COMPOSE"
  from assms obtain u where "add_job_and_send sr ?j
      \<lparr>c_id = uuid, c_type = STOP_COMPOSE, c_payload = StopPayload p\<rparr> w = (Inr u, w')"
    by (auto simp: stop_project_def Let_def split: if_splits prod.splits sum.splits)
  from add_job_and_send_ok [OF this] show ?thesis by (simp add: new_job_def)
qed

lemma get_project_status_ok:
  assumes "get_project_status now uuid sr p w = (Inr resp, w')"
      and "current_deployment p (deployment_tbl (db w)) = Some x"
  shows "map_option j_deployment_id (job_by_id uuid (db w')) = Some (Some (d_id x))"
    and "map_option j_agent_id (job_by_id uuid (db w')) = Some (d_agent_id x)"
proof -
  let ?j = "new_job now uuid (d_id x) (d_agent_id x) STATUS"
  from assms obtain u where "add_job_and_send sr ?j
      \<lparr>c_id = uuid, c_type = STATUS, c_payload = StatusPayload p\<rparr> w = (Inr u, w')"
    by (auto simp: get_project_status_def Let_def split: if_splits prod.splits sum.splits)
  from add_job_and_send_ok [OF this]
  show "map_option j_deployment_id (job_by_id uuid (db w')) = Some (Some (d_id x))"
    and "map_option j_agent_id (job_by_id uuid (db w')) = Some (d_agent_id x)"
    by (simp_all add: new_job_def)
qed

lemma after_deploy_x_again:
  "deployment_tbl (db (run [web1_connects, deploy_x, deploy_x_again] init_world)) =
     [deployment_x, deployment_x2]"
  "fst (stop_project 9 ''S'' False ''x'' \<lparr>sq_agent_id = None\<rparr>
     (run [web1_connects, deploy_x, deploy_x_again] init_world)) =
     Inr \<lparr>sr_job_id = ''S'', sr_status = ''queued'',
          sr_message = ''Stop command queued for project x''\<rparr>"
  by (simp_all add: deploy_x_again_def deployment_x_def deployment_x2_def scenario_simps run_simps)

lemma current_of_two:
  "current_deployment ''x'' [deployment_x, deployment_x2] = Some deployment_x2"
  by (simp add: current_deployment_def deployment_x_def deployment_x2_def)

lemma add_job_and_send_sends:
  assumes "job_by_id (j_id j) (db w) = None"
      and "active_connections (mgr w) (j_agent_id j) = Some ws"
  shows "add_job_and_send False j c w =
     (Inr (), w\<lparr>db := (db w)\<lparr>job_tbl := job_tbl (db w) @ [j]\<rparr>,
               mgr := (mgr w)\<lparr>ws_calls := ws_calls (mgr w) @ [WsSendText ws c]\<rparr>\<rparr>)"
  using assms by (simp add: add_job_and_send_def job_by_id_def send_command_def Let_def)

lemma stop_project_sends:
  assumes "current_deployment p (deployment_tbl (db w)) = Some x"
      and "target = (case sq_agent_id sreq of None \<Rightarrow> d_agent_id x
                     | Some b \<Rightarrow> if b = 0 then d_agent_id x else b)"
      and "active_connections (mgr w) target = Some ws" and "job_by_id uuid (db w) = None"
  shows "stop_project now uuid False p sreq w =
     (Inr \<lparr>sr_job_id = uuid, sr_status = ''queued'',
           sr_message = ''Stop command queued for project '' @ p\<rparr>,
      w\<lparr>db := (db w)\<lparr>job_tbl := job_tbl (db w) @ [new_job now uuid (d_id x) target STOP_COMPOSE]\<rparr>,
        mgr := (mgr w)\<lparr>ws_calls := ws_calls (mgr w) @
           [WsSendText ws \<lparr>c_id = uuid, c_type = STOP_COMPOSE, c_payload = StopPayload p\<rparr>]\<rparr>\<rparr>)"
proof -
  let ?j = "new_job now uuid (d_id x) target STOP_COMPOSE"
  have "job_by_id (j_id ?j) (db w) = None" "active_connections (mgr w) (j_agent_id ?j) = Some ws"
    using assms(3,4) by (simp_all add: new_job_def)
  note s = add_job_and_send_sends [OF this]
  have c: "is_connected target (mgr w)" using assms(3) by (auto simp: is_connected_def)
  show ?thesis using assms(1) c s unfolding assms(2)
    by (simp add: stop_project_def Let_def new_job_def)
qed

lemma get_project_status_sends:
  assumes "current_deployment p (deployment_tbl (db w)) = Some x"
      and "active_connections (mgr w) (d_agent_id x) = Some ws" and "job_by_id uuid (db w) = None"
  shows "get_project_status now uuid False p w =
     (Inr \<lparr>tr_job_id = uuid, tr_status = ''queued'',
           tr_logs = ''Status check queued for project '' @ p\<rparr>,
      w\<lparr>db := (db w)\<lparr>job_tbl := job_tbl (db w) @
             [new_job now uuid (d_id x) (d_agent_id x) STATUS]\<rparr>,
        mgr := (mgr w)\<lparr>ws_calls := ws_calls (mgr w) @
           [WsSendText ws \<lparr>c_id = uuid, c_type = STATUS, c_payload = StatusPayload p\<rparr>]\<rparr>\<rparr>)"
proof -
  let ?j = "new_job now uuid (d_id x) (d_agent_id x) STATUS"
  have "job_by_id (j_id ?j) (db w) = None" "active_connections (mgr w) (j_agent_id ?j) = Some ws"
    using assms(2,3) by (simp_all add: new_job_def)
  note s = add_job_and_send_sends [OF this]
  have c: "is_connected (d_agent_id x) (mgr w)" using assms(2) by (auto simp: is_connected_def)
  show ?thesis using assms(1) c s
    by (simp add: get_project_status_def Let_def new_job_def)
qed

lemma job_by_id_appended:
  "job_by_id (j_id j) d = None \<Longrightarrow>
   job_by_id (j_id j) (d\<lparr>job_tbl := job_tbl d @ [j]\<rparr>) = Some j"
  by (simp add: job_by_id_def find_append_new)

lemma after_deploy_x_again2:
  "active_connections (mgr (run [web1_connects, deploy_x, deploy_x_again] init_world)) 1 = Some 1"
  "job_by_id ''S'' (db (run [web1_connects, deploy_x, deploy_x_again] init_world)) = None"
  by (simp_all add: deploy_x_again_def scenario_simps run_simps)

text \<open>
  C8. When the deployment table has a row \<open>y\<close> for a project name, the query of
  \<^verbatim>\<open>stop_project\<close> and \<^verbatim>\<open>get_project_status\<close> finds a row \<open>x\<close> of that name whose creation
  time is not before that of \<open>y\<close>, so none of the name is more recent. Both requests act on
  \<open>x\<close>: whenever one succeeds, the job it creates refers to \<open>x\<close>; when the agent to address
  is connected, the job id is fresh and the write goes through, the request does succeed,
  creates the queued job for \<open>x\<close> (a status request for the agent of \<open>x\<close>) and writes the
  command to that agent's socket; and when the agent of \<open>x\<close> is not connected the request is
  refused in the name of that agent.
\<close>

theorem current_deployment_is_latest:
  assumes "y \<in> set (deployment_tbl (db w))" and "d_project_name y = p"
  shows "\<exists>x. current_deployment p (deployment_tbl (db w)) = Some x
        \<and> x \<in> set (deployment_tbl (db w)) \<and> d_project_name x = p
        \<and> d_created_at y \<le> d_created_at x
        \<and> (\<forall>now uuid sr sreq resp w'.
              stop_project now uuid sr p sreq w = (Inr resp, w') \<longrightarrow>
              map_option j_deployment_id (job_by_id uuid (db w')) = Some (Some (d_id x)))
        \<and> (\<forall>now uuid sr resp w'.
              get_project_status now uuid sr p w = (Inr resp, w') \<longrightarrow>
              map_option j_deployment_id (job_by_id uuid (db w')) = Some (Some (d_id x))
              \<and> map_option j_agent_id (job_by_id uuid (db w')) = Some (d_agent_id x))
        \<and> (\<forall>now uuid sreq target ws.
              target = (case sq_agent_id sreq of None \<Rightarrow> d_agent_id x
                        | Some b \<Rightarrow> if b = 0 then d_agent_id x else b)
              \<and> active_connections (mgr w) target = Some ws \<and> job_by_id uuid (db w) = None \<longrightarrow>
              fst (stop_project now uuid False p sreq w) =
                Inr \<lparr>sr_job_id = uuid, sr_status = ''queued'',
                     sr_message = ''Stop command queued for project '' @ p\<rparr>
              \<and> job_by_id uuid (db (snd (stop_project now uuid False p sreq w))) =
                  Some (new_job now uuid (d_id x) target STOP_COMPOSE)
              \<and> ws_calls (mgr (snd (stop_project now uuid False p sreq w))) =
                  ws_calls (mgr w) @
                    [WsSendText ws \<lparr>c_id = uuid, c_type = STOP_COMPOSE, c_payload = StopPayload p\<rparr>])
        \<and> (\<forall>now uuid ws.
              active_connections (mgr w) (d_agent_id x) = Some ws
              \<and> job_by_id uuid (db w) = None \<longrightarrow>
              fst (get_project_status now uuid False p w) =
                Inr \<lparr>tr_job_id = uuid, tr_status = ''queued'',
                     tr_logs = ''Status check queued for project '' @ p\<rparr>
              \<and> job_by_id uuid (db (snd (get_project_status now uuid False p w))) =
                  Some (new_job now uuid (d_id x) (d_agent_id x) STATUS)
              \<and> ws_calls (mgr (snd (get_project_status now uuid False p w))) =
                  ws_calls (mgr w) @
                    [WsSendText ws \<lparr>c_id = uuid, c_type = STATUS, c_payload = StatusPayload p\<rparr>])
        \<and> (\<forall>now uuid sr.
              \<not> is_connected (d_agent_id x) (mgr w) \<longrightarrow>
              get_project_status now uuid sr p w = (Inl (AgentNotConnected (d_agent_id x)), w)
              \<and> stop_project now uuid sr p \<lparr>sq_agent_id = None\<rparr> w =
                  (Inl (AgentNotConnected (d_agent_id x)), w))"
proof -
  from assms obtain x where x: "current_deployment p (deployment_tbl (db w)) = Some x"
    using current_deployment_exists by blast
  from assms current_deployment_Some [OF x]
  have "x \<in> set (deployment_tbl (db w))" "d_project_name x = p"
    "d_created_at y \<le> d_created_at x" by simp_all
  moreover have "\<forall>now uuid sr sreq resp w'.
              stop_project now uuid sr p sreq w = (Inr resp, w') \<longrightarrow>
              map_option j_deployment_id (job_by_id uuid (db w')) = Some (Some (d_id x))"
    using stop_project_ok [OF _ x] by blast
  moreover have "\<forall>now uuid sr resp w'.
              get_project_status now uuid sr p w = (Inr resp, w') \<longrightarrow>
              map_option j_deployment_id (job_by_id uuid (db w')) = Some (Some (d_id x))
              \<and> map_option j_agent_id (job_by_id uuid (db w')) = Some (d_agent_id x)"
    using get_project_status_ok [OF _ x] by blast
  moreover have "\<forall>now uuid sreq target ws.
              target = (case sq_agent_id sreq of None \<Rightarrow> d_agent_id x
                        | Some b \<Rightarrow> if b = 0 then d_agent_id x else b)
              \<and> active_connections (mgr w) target = Some ws \<and> job_by_id uuid (db w) = None \<longrightarrow>
              fst (stop_project now uuid False p sreq w) =
                Inr \<lparr>sr_job_id = uuid, sr_status = ''queued'',
                     sr_message = ''Stop command queued for project '' @ p\<rparr>
              \<and> job_by_id uuid (db (snd (stop_project now uuid False p sreq w))) =
                  Some (new_job now uuid (d_id x) target STOP_COMPOSE)
              \<and> ws_calls (mgr (snd (stop_project now uuid False p sreq w))) =
                  ws_calls (mgr w) @
                    [WsSendText ws \<lparr>c_id = uuid, c_type = STOP_COMPOSE, c_payload = StopPayload p\<rparr>]"
  proof (intro allI impI)
    fix now uuid and sreq :: StopRequest and target ws
    assume a: "target = (case sq_agent_id sreq of None \<Rightarrow> d_agent_id x
                        | Some b \<Rightarrow> if b = 0 then d_agent_id x else b)
              \<and> active_connections (mgr w) target = Some ws \<and> job_by_id uuid (db w) = None"
    then have t: "target = (case sq_agent_id sreq of None \<Rightarrow> d_agent_id x
                        | Some b \<Rightarrow> if b = 0 then d_agent_id x else b)"
      and c: "active_connections (mgr w) target = Some ws" and n: "job_by_id uuid (db w) = None"
      by blast+
    have "job_by_id (j_id (new_job now uuid (d_id x) target STOP_COMPOSE)) (db w) = None"
      using n by (simp add: new_job_def)
    from job_by_id_appended [OF this]
    show "fst (stop_project now uuid False p sreq w) =
                Inr \<lparr>sr_job_id = uuid, sr_status = ''queued'',
                     sr_message = ''Stop command queued for project '' @ p\<rparr>
              \<and> job_by_id uuid (db (snd (stop_project now uuid False p sreq w))) =
                  Some (new_job now uuid (d_id x) target STOP_COMPOSE)
              \<and> ws_calls (mgr (snd (stop_project now uuid False p sreq w))) =
                  ws_calls (mgr w) @
                    [WsSendText ws \<lparr>c_id = uuid, c_type = STOP_COMPOSE, c_payload = StopPayload p\<rparr>]"
      unfolding stop_project_sends [OF x t c n, of now] by (simp add: new_job_def)
  qed
  moreover have "\<forall>now uuid ws.
              active_connections (mgr w) (d_agent_id x) = Some ws
              \<and> job_by_id uuid (db w) = None \<longrightarrow>
              fst (get_project_status now uuid False p w) =
                Inr \<lparr>tr_job_id = uuid, tr_status = ''queued'',
                     tr_logs = ''Status check queued for project '' @ p\<rparr>
              \<and> job_by_id uuid (db (snd (get_project_status now uuid False p w))) =
                  Some (new_job now uuid (d_id x) (d_agent_id x) STATUS)
              \<and> ws_calls (mgr (snd (get_project_status now uuid False p w))) =
                  ws_calls (mgr w) @
                    [WsSendText ws \<lparr>c_id = uuid, c_type = STATUS, c_payload = StatusPayload p\<rparr>]"
  proof (intro allI impI)
    fix now uuid ws
    assume a: "active_connections (mgr w) (d_agent_id x) = Some ws
              \<and> job_by_id uuid (db w) = None"
    then have c: "active_connections (mgr w) (d_agent_id x) = Some ws"
      and n: "job_by_id uuid (db w) = None" by blast+
    have "job_by_id (j_id (new_job now uuid (d_id x) (d_agent_id x) STATUS)) (db w) = None"
      using n by (simp add: new_job_def)
    from job_by_id_appended [OF this]
    show "fst (get_project_status now uuid False p w) =
                Inr \<lparr>tr_job_id = uuid, tr_status = ''queued'',
                     tr_logs = ''Status check queued for project '' @ p\<rparr>
              \<and> job_by_id uuid (db (snd (get_project_status now uuid False p w))) =
                  Some (new_job now uuid (d_id x) (d_agent_id x) STATUS)
              \<and> ws_calls (mgr (snd (get_project_status now uuid False p w))) =
                  ws_calls (mgr w) @
                    [WsSendText ws \<lparr>c_id = uuid, c_type = STATUS, c_payload = StatusPayload p\<rparr>]"
      unfolding get_project_status_sends [OF x c n, of now] by (simp add: new_job_def)
  qed
  moreover have "\<forall>now uuid sr.
              \<not> is_connected (d_agent_id x) (mgr w) \<longrightarrow>
              get_project_status now uuid sr p w = (Inl (AgentNotConnected (d_agent_id x)), w)
              \<and> stop_project now uuid sr p \<lparr>sq_agent_id = None\<rparr> w =
                  (Inl (AgentNotConnected (d_agent_id x)), w)"
    using x by (simp add: get_project_status_def stop_project_def Let_def)
  ultimately show ?thesis using x by blast
qed

theorem current_deployment_is_latest_witness:
  "map_option j_deployment_id (job_by_id ''S'' (db (snd
     (stop_project 9 ''S'' False ''x'' \<lparr>sq_agent_id = None\<rparr>
        (run [web1_connects, deploy_x, deploy_x_again] init_world))))) = Some (Some 2)
   \<and> job_by_id ''S'' (db (snd
     (stop_project 9 ''S'' False ''x'' \<lparr>sq_agent_id = None\<rparr>
        (run [web1_connects, deploy_x, deploy_x_again] init_world)))) =
       Some (new_job 9 ''S'' 2 1 STOP_COMPOSE)
   \<and> fst (get_project_status 9 ''S'' False ''x''
        (run [web1_connects, deploy_x, deploy_x_again] init_world)) =
       Inr \<lparr>tr_job_id = ''S'', tr_status = ''queued'',
            tr_logs = ''Status check queued for project x''\<rparr>
   \<and> job_by_id ''S'' (db (snd (get_project_status 9 ''S'' False ''x''
        (run [web1_connects, deploy_x, deploy_x_again] init_world)))) =
       Some (new_job 9 ''S'' 2 1 STATUS)
   \<and> last (ws_calls (mgr (snd (get_project_status 9 ''S'' False ''x''
        (run [web1_connects, deploy_x, deploy_x_again] init_world))))) =
       WsSendText 1 \<lparr>c_id = ''S'', c_type = STATUS, c_payload = StatusPayload ''x''\<rparr>"
proof -
  let ?w = "run [web1_connects, deploy_x, deploy_x_again] init_world"
  have m: "deployment_x \<in> set (deployment_tbl (db ?w))" "d_project_name deployment_x = ''x''"
    by (simp_all add: after_deploy_x_again(1)) (simp add: deployment_x_def)
  show ?thesis
  proof (rule exE [OF current_deployment_is_latest [OF m]], goal_cases)
    case (1 x)
    note x = 1 [THEN conjunct1]
    note s = 1 [THEN conjunct2, THEN conjunct2, THEN conjunct2, THEN conjunct2, THEN conjunct2,
      THEN conjunct2, THEN conjunct1, rule_format, of 1 "\<lparr>sq_agent_id = None\<rparr>" 1 "''S''" 9]
    note t = 1 [THEN conjunct2, THEN conjunct2, THEN conjunct2, THEN conjunct2, THEN conjunct2,
      THEN conjunct2, THEN conjunct2, THEN conjunct1, rule_format, of 1 "''S''" 9]
    from x have e: "x = deployment_x2" by (simp add: after_deploy_x_again(1) current_of_two)
    have i: "d_id x = 2" "d_agent_id x = 1" by (simp_all add: e deployment_x2_def)
    from s after_deploy_x_again2
    have s': "job_by_id ''S'' (db (snd (stop_project 9 ''S'' False ''x'' \<lparr>sq_agent_id = None\<rparr> ?w))) =
                  Some (new_job 9 ''S'' 2 1 STOP_COMPOSE)"
      by (simp add: i)
    from t after_deploy_x_again2
    have t': "fst (get_project_status 9 ''S'' False ''x'' ?w) =
                Inr \<lparr>tr_job_id = ''S'', tr_status = ''queued'',
                     tr_logs = ''Status check queued for project x''\<rparr>"
      "job_by_id ''S'' (db (snd (get_project_status 9 ''S'' False ''x'' ?w))) =
                  Some (new_job 9 ''S'' 2 1 STATUS)"
      "last (ws_calls (mgr (snd (get_project_status 9 ''S'' False ''x'' ?w)))) =
         WsSendText 1 \<lparr>c_id = ''S'', c_type = STATUS, c_payload = StatusPayload ''x''\<rparr>"
      by (simp_all add: i)
    from s' t' show ?case by (simp add: new_job_def)
  qed
qed

end
